theory Spec2Isabelle
  imports Complex_Main "HOL-Library.Sublist" "HOL-Library.Multiset"
begin

section \<open>The RAG notebook (rag-qdrant-notebook.ipynb) as a state-passing program\<close>

text \<open>
  The notebook is a sequence of code cells run from top to bottom. Each cell is modelled
  as a function on the record \<open>notebook\<close>, which holds the global namespace of the kernel
  (a variable that is not bound is \<open>None\<close>), the console, the process environment, the
  input folder and the contents of the vector store. A cell that raises returns
  \<open>Inl (error, state at the raise)\<close>; the cells after it are then not run.

  Strings are byte strings (UTF-8). The libraries the notebook calls (the sentence
  encoder, the PDF loader with its text splitter, the hosted language model, the
  similarity measure of the store) are parameters collected in the record \<open>world\<close>;
  every such call is taken to return (outages of the remote services are outside the model).
\<close>

subsection \<open>Python string operations\<close>

definition lower_char :: "char \<Rightarrow> char" where
  "lower_char c =
     (let n = (of_char c :: nat) in if 65 \<le> n \<and> n \<le> 90 then char_of (n + 32) else c)"

text \<open>
  \<open>str.lower\<close>: ASCII capitals are mapped to small letters, every other byte is kept.
  Python also lowercases letters outside ASCII, but it maps none of them to a string of
  ASCII letters, the Kelvin sign (to \<open>k\<close>) apart; the words the notebook compares
  lowercased text with (\<open>exit\<close>, \<open>quit\<close>, \<open>q\<close>, \<open>y\<close>, \<open>yes\<close>, \<open>.pdf\<close>) have no \<open>k\<close>, so
  the comparisons come out the same.
\<close>

definition lower :: "string \<Rightarrow> string" where
  "lower s = map lower_char s"

text \<open>\<open>str.endswith\<close>.\<close>

definition endswith :: "string \<Rightarrow> string \<Rightarrow> bool" where
  "endswith s suf = (length suf \<le> length s \<and> drop (length s - length suf) s = suf)"

text \<open>\<open>sep.join(parts)\<close>.\<close>

fun join :: "string \<Rightarrow> string list \<Rightarrow> string" where
  "join sep [] = []"
| "join sep [x] = x"
| "join sep (x # y # ys) = x @ sep @ join sep (y # ys)"

subsection \<open>Errors, console messages and calls to the external services\<close>

datatype error =
    TypeError     \<comment> \<open>\<open>os.environ[...] = None\<close>\<close>
  | NameError     \<comment> \<open>a variable read before the cell binding it has run\<close>
  | EOFError      \<comment> \<open>\<open>input()\<close> at the end of the input\<close>
  | ValueError    \<comment> \<open>\<open>str.format\<close>: a brace without its partner\<close>
  | KeyError      \<comment> \<open>\<open>str.format\<close>: a field that has no argument\<close>
  | StoreError    \<comment> \<open>the vector store refuses the request\<close>

text \<open>
  What the notebook prints, one constructor for each message (a banner made of several
  \<open>print\<close> calls is one message) and for each prompt of \<open>input\<close>. The elapsed time in the
  upload message is left out.
\<close>

datatype message =
    Api_key_configured
  | Encoder_ready nat
  | Deleted_existing_collection string
  | Created_collection string
  | Dashboard_available
  | Created_directory string
  | Please_add_pdfs
  | Loading string
  | No_pdf_files_found string
  | Loaded_and_split nat nat
  | Creating_embeddings
  | Uploaded nat
  | View_collection string
  | No_documents_loaded
  | Prompt_template_created
  | Chain_ready
  | Vectorstore_not_created
  | Chain_not_created
  | Question_banner string
  | Answer_text string
  | Session_banner
  | Enter_your_question
  | Goodbye
  | Try_example_anyway

datatype event =
    Embed string              \<comment> \<open>the encoder is run on a text\<close>
  | Search string nat         \<comment> \<open>the store is queried: collection, k\<close>
  | Generate string           \<comment> \<open>the language model is called with a prompt\<close>
  | Upsert string nat         \<comment> \<open>records are written to a collection\<close>

subsection \<open>Data\<close>

record chunk =
  page_content :: string
  source :: string
  page :: nat

record point =
  payload :: chunk
  vector :: "real list"

datatype distance = COSINE | EUCLID | DOT

record collection =
  size_param :: nat
  distance :: distance
  points :: "point list"

type_synonym qdrant = "(string \<times> collection) list"

record chain =
  retriever_collection :: string
  retriever_k :: nat
  prompt_template :: string

record world =
  dotenv :: "string \<rightharpoonup> string"
  model_dimension :: nat
  encode :: "string \<Rightarrow> real list"
  load_and_split :: "nat \<Rightarrow> nat \<Rightarrow> string \<Rightarrow> chunk list"
  similarity :: "real list \<Rightarrow> real list \<Rightarrow> real"
  llm :: "string \<Rightarrow> string"

record notebook =
  environ :: "string \<rightharpoonup> string"
  store :: qdrant
  folder :: "string list option"
  stdin :: "string list"
  stdout :: "message list"
  trace :: "event list"
  GOOGLE_API_KEY :: "string option"
  embedding_dimension :: "nat option"
  collection_name :: "string option"
  documents :: "chunk list option"
  pdf_files :: "nat option"
  vectorstore :: "string option"
  prompt :: "string option"
  qa_chain :: "chain option"

type_synonym 'a result = "(error \<times> notebook) + 'a"

definition print :: "message list \<Rightarrow> notebook \<Rightarrow> notebook" where
  "print ms nb = nb\<lparr>stdout := stdout nb @ ms\<rparr>"

definition log_event :: "event \<Rightarrow> notebook \<Rightarrow> notebook" where
  "log_event e nb = nb\<lparr>trace := trace nb @ [e]\<rparr>"

text \<open>Sequencing of cells: a cell runs only if the one before it returned.\<close>

definition and_then :: "notebook result \<Rightarrow> (notebook \<Rightarrow> notebook result) \<Rightarrow> notebook result" where
  "and_then r f = (case r of Inl e \<Rightarrow> Inl e | Inr nb \<Rightarrow> f nb)"

subsection \<open>Cell 3: configure the environment\<close>

text \<open>
  \<open>load_dotenv()\<close> adds the variables of the \<open>.env\<close> file to the process environment;
  a variable that the environment already has keeps its value.
\<close>

definition load_dotenv :: "(string \<rightharpoonup> string) \<Rightarrow> (string \<rightharpoonup> string) \<Rightarrow> (string \<rightharpoonup> string)" where
  "load_dotenv file env = file ++ env"

definition falsy :: "string option \<Rightarrow> bool" where
  "falsy v = (v = None \<or> v = Some [])"

text \<open>
  \<open>os.getenv\<close> returns \<open>None\<close> for a variable that is not set. The branch
  \<open>if not GOOGLE_API_KEY: pass\<close> changes nothing. Assigning \<open>None\<close> to
  \<open>os.environ[...]\<close> raises \<open>TypeError\<close>; \<open>genai.configure\<close> only stores the key. The
  variable \<open>GOOGLE_API_KEY\<close> of the model is bound once the cell has returned.
\<close>

definition configure_environment :: "world \<Rightarrow> notebook \<Rightarrow> notebook result" where
  "configure_environment w nb =
     (let nb1 = nb\<lparr>environ := load_dotenv (dotenv w) (environ nb)\<rparr>;
          key = environ nb1 ''GOOGLE_API_KEY'';
          key = (if falsy key then key else key)
      in case key of
           None \<Rightarrow> Inl (TypeError, nb1)
         | Some k \<Rightarrow>
             Inr (print [Api_key_configured]
                   (nb1\<lparr>environ := (environ nb1)(''GOOGLE_API_KEY'' \<mapsto> k),
                        GOOGLE_API_KEY := Some k\<rparr>)))"

subsection \<open>Cell 4: the embedding model\<close>

definition get_sentence_embedding_dimension :: "world \<Rightarrow> nat" where
  "get_sentence_embedding_dimension w = model_dimension w"

definition set_up_embedding_model :: "world \<Rightarrow> notebook \<Rightarrow> notebook result" where
  "set_up_embedding_model w nb =
     (let d = get_sentence_embedding_dimension w
      in Inr (print [Encoder_ready d] (nb\<lparr>embedding_dimension := Some d\<rparr>)))"

subsection \<open>Cell 5: connect to the store and create the collection\<close>

text \<open>
  Modelled from the spec: the collection operations of the external vector store
  (sections 3 and 4.2). A collection is a named container with a fixed dimension and
  metric; deleting removes the name, creating adds an empty collection and is refused
  when the name is taken.
\<close>

definition get_collections :: "qdrant \<Rightarrow> string list" where
  "get_collections st = map fst st"

definition delete_collection :: "string \<Rightarrow> qdrant \<Rightarrow> qdrant" where
  "delete_collection name st = filter (\<lambda>(n, c). n \<noteq> name) st"

definition create_collection :: "string \<Rightarrow> nat \<Rightarrow> distance \<Rightarrow> qdrant \<Rightarrow> error + qdrant" where
  "create_collection name d m st =
     (if name \<in> set (get_collections st) then Inl StoreError
      else Inr ((name, \<lparr>size_param = d, distance = m, points = []\<rparr>) # st))"

definition create_qdrant_collection :: "notebook \<Rightarrow> notebook result" where
  "create_qdrant_collection nb =
     (let name = ''pdf_documents'';
          nb1 = nb\<lparr>collection_name := Some name\<rparr>;
          collection_names = get_collections (store nb1);
          nb2 = (if name \<in> set collection_names
                 then print [Deleted_existing_collection name]
                        (nb1\<lparr>store := delete_collection name (store nb1)\<rparr>)
                 else nb1)
      in case embedding_dimension nb2 of
           None \<Rightarrow> Inl (NameError, nb2)
         | Some d \<Rightarrow>
             (case create_collection name d COSINE (store nb2) of
                Inl e \<Rightarrow> Inl (e, nb2)
              | Inr st \<Rightarrow>
                  Inr (print [Created_collection name, Dashboard_available]
                        (nb2\<lparr>store := st\<rparr>))))"

text \<open>The cell run \<open>n\<close> times in succession.\<close>

fun repeat_cell :: "nat \<Rightarrow> (notebook \<Rightarrow> notebook result) \<Rightarrow> notebook \<Rightarrow> notebook result" where
  "repeat_cell 0 cell nb = Inr nb"
| "repeat_cell (Suc n) cell nb = and_then (cell nb) (repeat_cell n cell)"

subsection \<open>Cell 6: load and split the PDF documents\<close>

definition folder_path :: string where
  "folder_path = ''./pdfs''"

definition path_join :: "string \<Rightarrow> string \<Rightarrow> string" where
  "path_join dir fname = dir @ ''/'' @ fname"

text \<open>
  The loop over \<open>os.listdir(folder_path)\<close>; the accumulator is
  \<open>(documents, pdf_files)\<close> and the lines printed so far.
\<close>

fun load_loop :: "world \<Rightarrow> string list \<Rightarrow> chunk list \<times> nat \<times> message list
    \<Rightarrow> chunk list \<times> nat \<times> message list" where
  "load_loop w [] acc = acc"
| "load_loop w (fname # rest) (docs, n, out) =
     (if \<not> endswith (lower fname) ''.pdf'' then load_loop w rest (docs, n, out)
      else load_loop w rest
             (docs @ load_and_split w 1000 200 (path_join folder_path fname),
              n + 1, out @ [Loading fname]))"

definition load_and_split_pdfs :: "world \<Rightarrow> notebook \<Rightarrow> notebook result" where
  "load_and_split_pdfs w nb =
     (case folder nb of
        None \<Rightarrow>
          Inr (print [Created_directory folder_path, Please_add_pdfs] (nb\<lparr>folder := Some []\<rparr>))
      | Some files \<Rightarrow>
          (case load_loop w files ([], 0, []) of (docs, n, out) \<Rightarrow>
             Inr (print (out @ (if n = 0 then [No_pdf_files_found folder_path]
                                else [Loaded_and_split (length docs) n]))
                   (nb\<lparr>documents := Some docs, pdf_files := Some n\<rparr>))))"

subsection \<open>Cell 7: create the vector store and add the documents\<close>

text \<open>
  Modelled from the spec: the indexing step (section 4.4) embeds each chunk and writes
  one record for it into the collection; a store that has no collection of the name
  gets one of the encoder's dimension, and a collection of another dimension rejects
  the records (section 3).
\<close>

definition embed_documents :: "world \<Rightarrow> chunk list \<Rightarrow> point list" where
  "embed_documents w docs = map (\<lambda>d. \<lparr>payload = d, vector = encode w (page_content d)\<rparr>) docs"

definition from_documents :: "world \<Rightarrow> chunk list \<Rightarrow> string \<Rightarrow> qdrant \<Rightarrow> error + qdrant" where
  "from_documents w docs name st =
     (case map_of st name of
        None \<Rightarrow>
          Inr ((name, \<lparr>size_param = model_dimension w, distance = COSINE,
                       points = embed_documents w docs\<rparr>) # st)
      | Some c \<Rightarrow>
          if size_param c \<noteq> model_dimension w then Inl StoreError
          else Inr (map (\<lambda>(n, c'). if n = name
                          then (n, c'\<lparr>points := points c' @ embed_documents w docs\<rparr>)
                          else (n, c')) st))"

definition create_vector_store :: "world \<Rightarrow> notebook \<Rightarrow> notebook result" where
  "create_vector_store w nb =
     (if documents nb \<noteq> None \<and> length (the (documents nb)) > 0 then
        (let docs = the (documents nb);
             nb1 = print [Creating_embeddings] nb
         in case collection_name nb1 of
              None \<Rightarrow> Inl (NameError, nb1)
            | Some name \<Rightarrow>
                (case from_documents w docs name (store nb1) of
                   Inl e \<Rightarrow> Inl (e, nb1)
                 | Inr st \<Rightarrow>
                     Inr (print [Uploaded (length docs), View_collection name]
                           (log_event (Upsert name (length docs))
                             (nb1\<lparr>store := st, vectorstore := Some name\<rparr>)))))
      else Inr (print [No_documents_loaded] nb))"

subsection \<open>Cell 8: the prompt template\<close>

definition template_head :: string where
  "template_head =
     ''You are an expert assistant. Use the following context to answer the user's question.\<newline>\<newline>Context:\<newline>''"

definition template_middle :: string where
  "template_middle = ''\<newline>\<newline>Question:\<newline>''"

definition template_format :: string where
  "template_format =
     ''\<newline>\<newline>Answer:\<newline>1. Summary:  \<newline>   Provide a succinct explanatory summary (1''
     @ [CHR 0xE2, CHR 0x80, CHR 0x93] @
     ''4 sentences).\<newline>\<newline>2. Key Points:  \<newline>   List the main supporting details in bullet form.\<newline>\<newline>Example format:\<newline>\<newline>1. Summary:  \<newline>   The primary purpose of vector databases is to store and query dense vector embeddings for similarity search.\<newline>\<newline>2. Key Points:  \<newline>   - Vector databases offer fully managed services, eliminating infrastructure overhead.  \<newline>   - They support cosine and dot-product similarity metrics for fast nearest-neighbor retrieval.  \<newline>   - They integrate seamlessly with popular embedding libraries like SentenceTransformer.  \<newline>   - They provide automatic indexing to scale to millions of vectors.\<newline>\<newline>Now, answer the question below following this format:\<newline>''"

definition template :: string where
  "template = template_head @ ''{context}'' @ template_middle @ ''{question}''
              @ template_format @ ''{question}'' @ ''\<newline>''"

text \<open>
  \<open>template.format(**kw)\<close>, as \<open>PromptTemplate\<close> renders an f-string template: text is
  copied, \<open>{{\<close> and \<open>}}\<close> stand for one brace, \<open>{name}\<close> is replaced by the argument of
  that name (its value is not scanned again). The second argument is the field name
  being read, if any. Conversions and format specifications, which the template does
  not use, are not modelled.
\<close>

definition prepend :: "string \<Rightarrow> error + string \<Rightarrow> error + string" where
  "prepend s r = (case r of Inl e \<Rightarrow> Inl e | Inr t \<Rightarrow> Inr (s @ t))"

fun format_str :: "(string \<rightharpoonup> string) \<Rightarrow> string option \<Rightarrow> string \<Rightarrow> error + string" where
  "format_str kw None [] = Inr []"
| "format_str kw (Some name) [] = Inl ValueError"
| "format_str kw None (c # cs) =
     (if c = CHR ''{'' then
        (case cs of
           [] \<Rightarrow> Inl ValueError
         | c' # cs' \<Rightarrow> if c' = CHR ''{'' then prepend ''{'' (format_str kw None cs')
                       else format_str kw (Some []) cs)
      else if c = CHR ''}'' then
        (case cs of
           [] \<Rightarrow> Inl ValueError
         | c' # cs' \<Rightarrow> if c' = CHR ''}'' then prepend ''}'' (format_str kw None cs')
                       else Inl ValueError)
      else prepend [c] (format_str kw None cs))"
| "format_str kw (Some name) (c # cs) =
     (if c = CHR ''}'' then
        (case kw name of
           None \<Rightarrow> Inl KeyError
         | Some v \<Rightarrow> prepend v (format_str kw None cs))
      else format_str kw (Some (name @ [c])) cs)"

definition format_prompt :: "string \<Rightarrow> string \<Rightarrow> string \<Rightarrow> error + string" where
  "format_prompt t context question =
     format_str [''context'' \<mapsto> context, ''question'' \<mapsto> question] None t"

definition set_up_llm_and_prompt :: "notebook \<Rightarrow> notebook result" where
  "set_up_llm_and_prompt nb =
     (case GOOGLE_API_KEY nb of
        None \<Rightarrow> Inl (NameError, nb)
      | Some k \<Rightarrow> Inr (print [Prompt_template_created] (nb\<lparr>prompt := Some template\<rparr>)))"

subsection \<open>Cell 9: the retrieval chain\<close>

definition create_rag_chain :: "notebook \<Rightarrow> notebook result" where
  "create_rag_chain nb =
     (case vectorstore nb of
        Some vs \<Rightarrow>
          (case prompt nb of
             None \<Rightarrow> Inl (NameError, nb)
           | Some t \<Rightarrow>
               Inr (print [Chain_ready]
                     (nb\<lparr>qa_chain := Some \<lparr>retriever_collection = vs, retriever_k = 3,
                                            prompt_template = t\<rparr>\<rparr>)))
      | None \<Rightarrow> Inr (print [Vectorstore_not_created] nb))"

subsection \<open>Cell 10: questions\<close>

text \<open>
  Modelled from the spec: the store's query (section 4.2) returns up to \<open>k\<close> nearest
  records in descending order of similarity under the metric of the collection. The
  similarity is computed by the store in floating point and is a parameter here.
\<close>

definition query :: "world \<Rightarrow> collection \<Rightarrow> real list \<Rightarrow> nat \<Rightarrow> point list" where
  "query w c v k = take k (sort_key (\<lambda>p. - similarity w v (vector p)) (points c))"

text \<open>
  The chain of type \<open>stuff\<close>: embed the question, retrieve, put the texts of the chunks
  (joined by an empty line) and the question into the template, call the model.
\<close>

definition invoke_chain :: "world \<Rightarrow> chain \<Rightarrow> string \<Rightarrow> notebook
    \<Rightarrow> (error \<times> notebook) + ((string \<times> chunk list) \<times> notebook)" where
  "invoke_chain w ch question nb =
     (let v = encode w question;
          nb1 = log_event (Embed question) nb
      in case map_of (store nb1) (retriever_collection ch) of
           None \<Rightarrow> Inl (StoreError, nb1)
         | Some c \<Rightarrow>
             (let docs = map payload (query w c v (retriever_k ch));
                  nb2 = log_event (Search (retriever_collection ch) (retriever_k ch)) nb1;
                  context = join ''\<newline>\<newline>'' (map page_content docs)
              in case format_prompt (prompt_template ch) context question of
                   Inl e \<Rightarrow> Inl (e, nb2)
                 | Inr p \<Rightarrow> Inr ((llm w p, docs), log_event (Generate p) nb2)))"

definition ask_question :: "world \<Rightarrow> string \<Rightarrow> notebook
    \<Rightarrow> (error \<times> notebook) + ((string \<times> chunk list) option \<times> notebook)" where
  "ask_question w question nb =
     (case qa_chain nb of
        None \<Rightarrow> Inr (None, print [Chain_not_created] nb)
      | Some ch \<Rightarrow>
          (case invoke_chain w ch question nb of
             Inl e \<Rightarrow> Inl e
           | Inr (result, nb1) \<Rightarrow>
               Inr (Some result, print [Question_banner question, Answer_text (fst result)] nb1)))"

definition exit_words :: "string list" where
  "exit_words = [''exit'', ''quit'', ''q'']"

text \<open>
  The \<open>while True\<close> loop of \<open>interactive_qa_session\<close>, reading the lines of the input
  one by one; \<open>input\<close> raises \<open>EOFError\<close> when no line is left.
\<close>

fun qa_loop :: "world \<Rightarrow> string list \<Rightarrow> notebook \<Rightarrow> notebook result" where
  "qa_loop w [] nb = Inl (EOFError, print [Enter_your_question] nb)"
| "qa_loop w (user_question # rest) nb =
     (let nb1 = print [Enter_your_question] (nb\<lparr>stdin := rest\<rparr>)
      in if lower user_question \<in> set exit_words then Inr (print [Goodbye] nb1)
         else (case ask_question w user_question nb1 of
                 Inl e \<Rightarrow> Inl e
               | Inr (r, nb2) \<Rightarrow> qa_loop w rest nb2))"

definition interactive_qa_session :: "world \<Rightarrow> notebook \<Rightarrow> notebook result" where
  "interactive_qa_session w nb = qa_loop w (stdin nb) (print [Session_banner] nb)"

definition example_question :: string where
  "example_question = ''What is the Anti-Corruption Layer (ACL) pattern''"

definition start_session :: "world \<Rightarrow> notebook \<Rightarrow> notebook result" where
  "start_session w nb =
     (if qa_chain nb \<noteq> None then interactive_qa_session w nb
      else
        (let nb1 = print [Chain_not_created, Try_example_anyway] nb
         in case stdin nb1 of
              [] \<Rightarrow> Inl (EOFError, nb1)
            | try_example # rest \<Rightarrow>
                (let nb2 = nb1\<lparr>stdin := rest\<rparr>
                 in if lower try_example \<in> set [''y'', ''yes'']
                    then (case ask_question w example_question nb2 of
                            Inl e \<Rightarrow> Inl e
                          | Inr (r, nb3) \<Rightarrow> Inr nb3)
                    else Inr nb2)))"

subsection \<open>The whole run\<close>

definition fresh_kernel :: "(string \<rightharpoonup> string) \<Rightarrow> qdrant \<Rightarrow> string list option \<Rightarrow> string list
    \<Rightarrow> notebook" where
  "fresh_kernel env st dir inp =
     \<lparr>environ = env, store = st, folder = dir, stdin = inp, stdout = [], trace = [],
      GOOGLE_API_KEY = None, embedding_dimension = None, collection_name = None,
      documents = None, pdf_files = None, vectorstore = None, prompt = None,
      qa_chain = None\<rparr>"

text \<open>The cells up to and including the construction of the chain.\<close>

definition build :: "world \<Rightarrow> notebook \<Rightarrow> notebook result" where
  "build w nb =
     and_then (and_then (and_then (and_then (and_then (and_then
       (configure_environment w nb)
       (set_up_embedding_model w))
       create_qdrant_collection)
       (load_and_split_pdfs w))
       (create_vector_store w))
       set_up_llm_and_prompt)
       create_rag_chain"

definition run_all :: "world \<Rightarrow> notebook \<Rightarrow> notebook result" where
  "run_all w nb = and_then (build w nb) (start_session w)"


subsection \<open>The states of the answer pipeline\<close>

text \<open>
  Ready (section 4.5 of the spec): the chain is constructed the way cell 9 does it and
  its collection is populated. Uninitialized is \<open>qa_chain nb = None\<close>.
\<close>

definition ready :: "notebook \<Rightarrow> bool" where
  "ready nb =
     (case qa_chain nb of
        None \<Rightarrow> False
      | Some ch \<Rightarrow>
          prompt_template ch = template \<and> retriever_k ch = 3 \<and>
          (case map_of (store nb) (retriever_collection ch) of
             None \<Rightarrow> False
           | Some c \<Rightarrow> points c \<noteq> []))"

text \<open>The questions handed to the answer pipeline, read off the trace of service calls.\<close>

fun asked :: "event list \<Rightarrow> string list" where
  "asked [] = []"
| "asked (Embed q # es) = q # asked es"
| "asked (e # es) = asked es"

subsection \<open>A worked example\<close>

definition example_world :: world where
  "example_world =
     \<lparr>dotenv = Map.empty,
      model_dimension = 2,
      encode = (\<lambda>s. if s = [] then [0, 1] else [1, 0]),
      load_and_split = (\<lambda>S V path. [\<lparr>page_content = path, source = path, page = 0\<rparr>]),
      similarity = (\<lambda>a b. sum_list (map2 (*) a b)),
      llm = (\<lambda>p. ''answer'')\<rparr>"

definition example_kernel :: notebook where
  "example_kernel =
     fresh_kernel [''GOOGLE_API_KEY'' \<mapsto> ''secret''] []
       (Some [''a.PDF'', ''notes.txt'', ''b.pdf'']) [''What is X?'', [], ''QUIT'']"

definition paris_chunk :: chunk where
  "paris_chunk = \<lparr>page_content = ''The capital of France is Paris.'',
                   source = ''./pdfs/france.pdf'', page = 0\<rparr>"

definition paris_chain :: chain where
  "paris_chain = \<lparr>retriever_collection = ''pdf_documents'', retriever_k = 3,
                   prompt_template = template\<rparr>"

definition paris_notebook :: notebook where
  "paris_notebook =
     (fresh_kernel Map.empty
        [(''pdf_documents'', \<lparr>size_param = 2, distance = COSINE,
                               points = [\<lparr>payload = paris_chunk, vector = [1, 0]\<rparr>]\<rparr>)]
        (Some []) [])\<lparr>qa_chain := Some paris_chain\<rparr>"

definition keyless_kernel :: notebook where
  "keyless_kernel = fresh_kernel Map.empty [] (Some [''a.PDF'']) [''q'']"

definition dotenv_world :: world where
  "dotenv_world = example_world\<lparr>dotenv := [''GOOGLE_API_KEY'' \<mapsto> ''from-file'']\<rparr>"

definition stale_notebook :: notebook where
  "stale_notebook =
     (fresh_kernel Map.empty
        [(''other'', \<lparr>size_param = 5, distance = DOT, points = []\<rparr>),
         (''pdf_documents'', \<lparr>size_param = 7, distance = EUCLID,
                               points = [\<lparr>payload = paris_chunk, vector = [1, 0]\<rparr>]\<rparr>)]
        (Some []) [])\<lparr>embedding_dimension := Some 2\<rparr>"

definition missing_kernel :: notebook where
  "missing_kernel = fresh_kernel [''GOOGLE_API_KEY'' \<mapsto> ''secret''] [] None [''n'']"

definition no_pdf_kernel :: notebook where
  "no_pdf_kernel =
     fresh_kernel [''GOOGLE_API_KEY'' \<mapsto> ''secret''] [] (Some [''notes.txt'', ''pdf'']) [''n'']"

definition ranking_notebook :: notebook where
  "ranking_notebook =
     (fresh_kernel Map.empty
        [(''pdf_documents'', \<lparr>size_param = 2, distance = COSINE,
            points = [\<lparr>payload = \<lparr>page_content = ''three'', source = ''s'', page = 0\<rparr>,
                       vector = [3, 0]\<rparr>,
                      \<lparr>payload = \<lparr>page_content = ''one'', source = ''s'', page = 1\<rparr>,
                       vector = [1, 0]\<rparr>,
                      \<lparr>payload = \<lparr>page_content = ''four'', source = ''s'', page = 2\<rparr>,
                       vector = [4, 0]\<rparr>,
                      \<lparr>payload = \<lparr>page_content = ''two'', source = ''s'', page = 3\<rparr>,
                       vector = [2, 0]\<rparr>]\<rparr>)]
        (Some []) [])\<lparr>qa_chain := Some paris_chain\<rparr>"

section \<open>Properties\<close>

subsection \<open>Strings\<close>

lemma endswith_suffix: "endswith s suf \<longleftrightarrow> suffix suf s"
proof
  assume "endswith s suf"
  then have "s = take (length s - length suf) s @ suf"
    by (metis append_take_drop_id endswith_def)
  then show "suffix suf s" unfolding suffix_def by blast
next
  assume "suffix suf s"
  then obtain zs where "s = zs @ suf" unfolding suffix_def by blast
  then show "endswith s suf" by (simp add: endswith_def)
qed

lemma lower_append: "lower (a @ b) = lower a @ lower b"
  by (simp add: lower_def)

lemma pdf_name_iff:
  "endswith (lower f) ''.pdf'' \<longleftrightarrow> (\<exists>base ext. f = base @ ext \<and> lower ext = ''.pdf'')"
proof
  assume "endswith (lower f) ''.pdf''"
  then obtain zs where zs: "lower f = zs @ ''.pdf''"
    unfolding endswith_suffix suffix_def by blast
  have "f = take (length zs) f @ drop (length zs) f" by simp
  moreover have "lower (drop (length zs) f) = drop (length zs) (lower f)"
    by (simp add: lower_def drop_map)
  then have "lower (drop (length zs) f) = ''.pdf''" using zs by simp
  ultimately show "\<exists>base ext. f = base @ ext \<and> lower ext = ''.pdf''" by blast
next
  assume "\<exists>base ext. f = base @ ext \<and> lower ext = ''.pdf''"
  then obtain base ext where "f = base @ ext" "lower ext = ''.pdf''" by blast
  then have "suffix ''.pdf'' (lower f)" by (simp add: lower_append suffix_def)
  then show "endswith (lower f) ''.pdf''" by (simp add: endswith_suffix)
qed

lemma sublist_join: "x \<in> set xs \<Longrightarrow> sublist x (join sep xs)"
proof (induction sep xs rule: join.induct)
  case (1 sep)
  then show ?case by simp
next
  case (2 sep y)
  then show ?case by simp
next
  case (3 sep a b ys)
  show ?case
  proof (cases "x = a")
    case True
    then show ?thesis by simp
  next
    case False
    with 3 have "sublist x (join sep (b # ys))" by simp
    then obtain ps ss where "join sep (b # ys) = ps @ x @ ss"
      unfolding sublist_def by blast
    then have "join sep (a # b # ys) = (a @ sep @ ps) @ x @ ss" by simp
    then show ?thesis unfolding sublist_def by blast
  qed
qed

subsection \<open>The ingestion loop\<close>

lemma load_loop_filter:
  "load_loop w files (docs, n, out) =
     (docs @ concat (map (\<lambda>f. load_and_split w 1000 200 (path_join folder_path f))
                      (filter (\<lambda>f. endswith (lower f) ''.pdf'') files)),
      n + length (filter (\<lambda>f. endswith (lower f) ''.pdf'') files),
      out @ map Loading (filter (\<lambda>f. endswith (lower f) ''.pdf'') files))"
  by (induction files arbitrary: docs n out) simp_all

text \<open>
  C10. The extension test of the ingestion loop ignores case. When the folder exists, the
  cell loads exactly the files of the listing whose lowercased name ends with \<open>.pdf\<close>, in
  the order of the listing: they are the files announced, counted and split, and the
  other files leave no trace. A name passes the test exactly if it ends with some
  spelling of \<open>.pdf\<close> in capitals or small letters, such as \<open>.PDF\<close> or \<open>.Pdf\<close>.
\<close>

theorem pdf_extension_case_insensitive:
  assumes "folder nb = Some files"
  shows "load_and_split_pdfs w nb =
           Inr (print (map Loading (filter (\<lambda>f. endswith (lower f) ''.pdf'') files)
                       @ (if filter (\<lambda>f. endswith (lower f) ''.pdf'') files = []
                          then [No_pdf_files_found folder_path]
                          else [Loaded_and_split
                                 (length (concat (map (\<lambda>f. load_and_split w 1000 200
                                                          (path_join folder_path f))
                                    (filter (\<lambda>f. endswith (lower f) ''.pdf'') files))))
                                 (length (filter (\<lambda>f. endswith (lower f) ''.pdf'') files))]))
                 (nb\<lparr>documents := Some (concat (map (\<lambda>f. load_and_split w 1000 200
                                                          (path_join folder_path f))
                                    (filter (\<lambda>f. endswith (lower f) ''.pdf'') files))),
                     pdf_files := Some (length (filter (\<lambda>f. endswith (lower f) ''.pdf'') files))\<rparr>))
         \<and> (\<forall>f. endswith (lower f) ''.pdf''
                \<longleftrightarrow> (\<exists>base ext. f = base @ ext \<and> lower ext = ''.pdf''))
         \<and> lower ''.PDF'' = ''.pdf'' \<and> lower ''.Pdf'' = ''.pdf''"
proof -
  have "lower ''.PDF'' = ''.pdf''" "lower ''.Pdf'' = ''.pdf''"
    by code_simp+
  then show ?thesis
    using assms pdf_name_iff
    by (simp add: load_and_split_pdfs_def load_loop_filter)
qed

theorem pdf_extension_case_insensitive_witness:
  "folder example_kernel = Some [''a.PDF'', ''notes.txt'', ''b.pdf'']
   \<and> (case load_and_split_pdfs example_world example_kernel of
        Inl e \<Rightarrow> False
      | Inr nb \<Rightarrow> pdf_files nb = Some 2
                 \<and> map source (the (documents nb)) = [''./pdfs/a.PDF'', ''./pdfs/b.pdf'']
                 \<and> stdout nb = [Loading ''a.PDF'', Loading ''b.pdf'', Loaded_and_split 2 2])"
proof -
  have f: "folder example_kernel = Some [''a.PDF'', ''notes.txt'', ''b.pdf'']"
    by (simp add: example_kernel_def fresh_kernel_def)
  have p: "filter (\<lambda>f. endswith (lower f) ''.pdf'') [''a.PDF'', ''notes.txt'', ''b.pdf'']
             = [''a.PDF'', ''b.pdf'']"
    by code_simp
  note t = pdf_extension_case_insensitive [OF f, of example_world, THEN conjunct1, unfolded p]
  show ?thesis
    unfolding t
    by (simp add: print_def example_world_def example_kernel_def fresh_kernel_def
          path_join_def folder_path_def)
qed

subsection \<open>The prompt\<close>

lemma format_str_plain:
  "CHR ''{'' \<notin> set s \<Longrightarrow> CHR ''}'' \<notin> set s \<Longrightarrow>
   format_str kw None (s @ rest) = prepend s (format_str kw None rest)"
proof (induction s)
  case Nil
  show ?case by (simp add: prepend_def split: sum.splits)
next
  case (Cons c s)
  then show ?case by (simp add: prepend_def split: sum.splits)
qed

lemma format_str_name:
  "CHR ''}'' \<notin> set s \<Longrightarrow>
   format_str kw (Some name) (s @ CHR ''}'' # rest) =
     (case kw (name @ s) of None \<Rightarrow> Inl KeyError
      | Some v \<Rightarrow> prepend v (format_str kw None rest))"
  by (induction s arbitrary: name) auto

lemma format_str_field:
  assumes "CHR ''}'' \<notin> set s" "s \<noteq> []" "hd s \<noteq> CHR ''{''"
  shows "format_str kw None (CHR ''{'' # s @ CHR ''}'' # rest) =
     (case kw s of None \<Rightarrow> Inl KeyError
      | Some v \<Rightarrow> prepend v (format_str kw None rest))"
proof -
  obtain c cs where s: "s = c # cs" using assms(2) by (cases s) auto
  have "format_str kw None (CHR ''{'' # s @ CHR ''}'' # rest)
        = format_str kw (Some []) (s @ CHR ''}'' # rest)"
    using assms(3) by (simp add: s)
  also have "\<dots> = (case kw s of None \<Rightarrow> Inl KeyError
      | Some v \<Rightarrow> prepend v (format_str kw None rest))"
    using format_str_name [OF assms(1), of kw "[]" rest] by simp
  finally show ?thesis .
qed

lemma plain_head: "CHR ''{'' \<notin> set template_head" "CHR ''}'' \<notin> set template_head"
  by (simp_all add: template_head_def)

lemma plain_middle: "CHR ''{'' \<notin> set template_middle" "CHR ''}'' \<notin> set template_middle"
  by (simp_all add: template_middle_def)

lemma plain_format: "CHR ''{'' \<notin> set template_format" "CHR ''}'' \<notin> set template_format"
  by (simp_all add: template_format_def)

lemma format_prompt_template:
  "format_prompt template context question =
     Inr (template_head @ context @ template_middle @ question @ template_format
          @ question @ ''\<newline>'')"
proof -
  let ?kw = "[''context'' \<mapsto> context, ''question'' \<mapsto> question]"
  have c: "\<And>rest. format_str ?kw None (''{context}'' @ rest)
             = prepend context (format_str ?kw None rest)"
    using format_str_field [of "''context''" ?kw] by simp
  have q: "\<And>rest. format_str ?kw None (''{question}'' @ rest)
             = prepend question (format_str ?kw None rest)"
    using format_str_field [of "''question''" ?kw] by simp
  have e: "format_str ?kw None ''\<newline>'' = Inr ''\<newline>''"
    by (simp add: prepend_def)
  have h: "\<And>rest. format_str ?kw None (template_head @ rest)
             = prepend template_head (format_str ?kw None rest)"
    by (rule format_str_plain [OF plain_head])
  have m: "\<And>rest. format_str ?kw None (template_middle @ rest)
             = prepend template_middle (format_str ?kw None rest)"
    by (rule format_str_plain [OF plain_middle])
  have f: "\<And>rest. format_str ?kw None (template_format @ rest)
             = prepend template_format (format_str ?kw None rest)"
    by (rule format_str_plain [OF plain_format])
  show ?thesis
    unfolding format_prompt_def template_def
    by (simp only: h c m q f e) (simp add: prepend_def)
qed

lemma invoke_chain_template:
  assumes "prompt_template ch = template"
    and "map_of (store nb) (retriever_collection ch) = Some c"
  shows "invoke_chain w ch question nb =
     (let docs = map payload (query w c (encode w question) (retriever_k ch));
          p = template_head @ join ''\<newline>\<newline>'' (map page_content docs) @ template_middle
              @ question @ template_format @ question @ ''\<newline>''
      in Inr ((llm w p, docs),
              nb\<lparr>trace := trace nb @ [Embed question,
                     Search (retriever_collection ch) (retriever_k ch), Generate p]\<rparr>))"
  using assms
  by (simp add: invoke_chain_def log_event_def Let_def format_prompt_template)

lemma rendered_prompt_sublists:
  "sublist (join ''\<newline>\<newline>'' (map page_content chunks))
     (template_head @ join ''\<newline>\<newline>'' (map page_content chunks) @ template_middle
      @ question @ template_format @ question @ ''\<newline>'')"
  "sublist question
     (template_head @ join ''\<newline>\<newline>'' (map page_content chunks) @ template_middle
      @ question @ template_format @ question @ ''\<newline>'')"
  "\<forall>d\<in>set chunks. sublist (page_content d)
     (template_head @ join ''\<newline>\<newline>'' (map page_content chunks) @ template_middle
      @ question @ template_format @ question @ ''\<newline>'')"
proof -
  let ?ctx = "join ''\<newline>\<newline>'' (map page_content chunks)"
  let ?p = "template_head @ ?ctx @ template_middle @ question @ template_format
            @ question @ ''\<newline>''"
  show c: "sublist ?ctx ?p" by (rule sublist_appendI)
  have "?p = (template_head @ ?ctx @ template_middle) @ question
              @ (template_format @ question @ ''\<newline>'')"
    by simp
  then show "sublist question ?p" unfolding sublist_def by blast
  show "\<forall>d\<in>set chunks. sublist (page_content d) ?p"
  proof
    fix d assume "d \<in> set chunks"
    then have "page_content d \<in> set (map page_content chunks)" by simp
    then have "sublist (page_content d) ?ctx" by (rule sublist_join)
    then show "sublist (page_content d) ?p" using c by (rule sublist_order.order.trans)
  qed
qed

text \<open>
  C6. Whatever the question and whatever chunks are retrieved, the chain renders the
  template without error and calls the language model with the rendered prompt, and that
  prompt contains as contiguous substrings the concatenated texts of the retrieved
  chunks, the text of every retrieved chunk, and the question exactly as it was asked.
\<close>

theorem prompt_contains_chunks_and_question:
  assumes "prompt_template ch = template"
    and "map_of (store nb) (retriever_collection ch) = Some c"
  shows "\<exists>p docs nb'.
           invoke_chain w ch question nb = Inr ((llm w p, docs), nb')
         \<and> docs = map payload (query w c (encode w question) (retriever_k ch))
         \<and> trace nb' = trace nb @ [Embed question,
               Search (retriever_collection ch) (retriever_k ch), Generate p]
         \<and> format_prompt template (join ''\<newline>\<newline>'' (map page_content docs)) question = Inr p
         \<and> sublist (join ''\<newline>\<newline>'' (map page_content docs)) p
         \<and> sublist question p
         \<and> (\<forall>d\<in>set docs. sublist (page_content d) p)"
proof -
  let ?docs = "map payload (query w c (encode w question) (retriever_k ch))"
  let ?p = "template_head @ join ''\<newline>\<newline>'' (map page_content ?docs) @ template_middle
            @ question @ template_format @ question @ ''\<newline>''"
  let ?nb = "nb\<lparr>trace := trace nb @ [Embed question,
               Search (retriever_collection ch) (retriever_k ch), Generate ?p]\<rparr>"
  have "invoke_chain w ch question nb = Inr ((llm w ?p, ?docs), ?nb)"
    using invoke_chain_template [OF assms, of w question] by (simp add: Let_def)
  moreover have "trace ?nb = trace nb @ [Embed question,
               Search (retriever_collection ch) (retriever_k ch), Generate ?p]"
    by simp
  moreover have "format_prompt template (join ''\<newline>\<newline>'' (map page_content ?docs)) question
                   = Inr ?p"
    by (rule format_prompt_template)
  moreover note rendered_prompt_sublists [where chunks = ?docs and question = question]
  ultimately show ?thesis by blast
qed

theorem prompt_contains_chunks_and_question_witness:
  "prompt_template paris_chain = template
   \<and> map_of (store paris_notebook) (retriever_collection paris_chain)
       = Some \<lparr>size_param = 2, distance = COSINE,
               points = [\<lparr>payload = paris_chunk, vector = [1, 0]\<rparr>]\<rparr>
   \<and> (\<exists>p nb'. invoke_chain example_world paris_chain ''What is the capital of France?''
                 paris_notebook = Inr ((''answer'', [paris_chunk]), nb')
          \<and> last (trace nb') = Generate p
          \<and> sublist ''The capital of France is Paris.'' p
          \<and> sublist ''What is the capital of France?'' p)"
proof -
  have a: "prompt_template paris_chain = template" by (simp add: paris_chain_def)
  have b: "map_of (store paris_notebook) (retriever_collection paris_chain)
       = Some \<lparr>size_param = 2, distance = COSINE,
               points = [\<lparr>payload = paris_chunk, vector = [1, 0]\<rparr>]\<rparr>"
    by (simp add: paris_notebook_def paris_chain_def fresh_kernel_def)
  have l: "llm example_world = (\<lambda>p. ''answer'')" by (simp add: example_world_def)
  have q: "map payload (query example_world
      \<lparr>size_param = 2, distance = COSINE, points = [\<lparr>payload = paris_chunk, vector = [1, 0]\<rparr>]\<rparr>
      (encode example_world ''What is the capital of France?'') (retriever_k paris_chain))
      = [paris_chunk]"
    by (simp add: query_def paris_chain_def)
  from prompt_contains_chunks_and_question [OF a b, of example_world
      "''What is the capital of France?''", unfolded q l]
  obtain p nb' where
    "invoke_chain example_world paris_chain ''What is the capital of France?'' paris_notebook
       = Inr ((''answer'', [paris_chunk]), nb')"
    "trace nb' = trace paris_notebook @ [Embed ''What is the capital of France?'',
               Search (retriever_collection paris_chain) (retriever_k paris_chain), Generate p]"
    "sublist ''What is the capital of France?'' p"
    "\<forall>d\<in>set [paris_chunk]. sublist (page_content d) p"
    by blast
  then have "invoke_chain example_world paris_chain ''What is the capital of France?''
                 paris_notebook = Inr ((''answer'', [paris_chunk]), nb')
          \<and> last (trace nb') = Generate p
          \<and> sublist ''The capital of France is Paris.'' p
          \<and> sublist ''What is the capital of France?'' p"
    by (simp add: paris_chunk_def)
  then show ?thesis using a b by blast
qed

subsection \<open>The cells, one by one, and the run up to the chain\<close>

lemma map_of_delete_collection: "map_of (delete_collection name st) name = None"
  by (induction st) (auto simp: delete_collection_def)

lemma delete_collection_names: "name \<notin> set (get_collections (delete_collection name st))"
  by (induction st) (auto simp: delete_collection_def get_collections_def)

lemma delete_collection_absent:
  "name \<notin> set (get_collections st) \<Longrightarrow> delete_collection name st = st"
  by (induction st) (auto simp: delete_collection_def get_collections_def)

lemma and_then_Inr: "r = Inr x \<Longrightarrow> and_then r f = f x"
  by (simp add: and_then_def)

lemma and_then_Inl: "r = Inl e \<Longrightarrow> and_then r f = Inl e"
  by (simp add: and_then_def)

lemma configure_environment_present:
  assumes "load_dotenv (dotenv w) (environ nb) ''GOOGLE_API_KEY'' = Some k"
  shows "configure_environment w nb =
     Inr (nb\<lparr>environ := load_dotenv (dotenv w) (environ nb),
             GOOGLE_API_KEY := Some k,
             stdout := stdout nb @ [Api_key_configured]\<rparr>)"
proof -
  have "(load_dotenv (dotenv w) (environ nb))(''GOOGLE_API_KEY'' \<mapsto> k)
          = load_dotenv (dotenv w) (environ nb)"
    using assms by (rule map_upd_triv)
  then show ?thesis using assms
    by (simp add: configure_environment_def print_def Let_def)
qed

lemma configure_environment_absent:
  assumes "load_dotenv (dotenv w) (environ nb) ''GOOGLE_API_KEY'' = None"
  shows "configure_environment w nb =
     Inl (TypeError, nb\<lparr>environ := load_dotenv (dotenv w) (environ nb)\<rparr>)"
  using assms by (simp add: configure_environment_def Let_def)

lemma set_up_embedding_model_eq:
  "set_up_embedding_model w nb =
     Inr (nb\<lparr>embedding_dimension := Some (model_dimension w),
             stdout := stdout nb @ [Encoder_ready (model_dimension w)]\<rparr>)"
  by (simp add: set_up_embedding_model_def get_sentence_embedding_dimension_def print_def Let_def)

lemma create_qdrant_collection_eq:
  assumes "embedding_dimension nb = Some d"
  shows "create_qdrant_collection nb =
     Inr (nb\<lparr>collection_name := Some ''pdf_documents'',
             store := (''pdf_documents'', \<lparr>size_param = d, distance = COSINE, points = []\<rparr>)
                       # delete_collection ''pdf_documents'' (store nb),
             stdout := stdout nb @
               (if ''pdf_documents'' \<in> set (get_collections (store nb))
                then [Deleted_existing_collection ''pdf_documents''] else [])
               @ [Created_collection ''pdf_documents'', Dashboard_available]\<rparr>)"
proof (cases "''pdf_documents'' \<in> set (get_collections (store nb))")
  case True
  then show ?thesis
    using assms delete_collection_names [of "''pdf_documents''" "store nb"]
    by (simp add: create_qdrant_collection_def create_collection_def print_def Let_def)
next
  case False
  then show ?thesis
    using assms delete_collection_absent [OF False]
    by (simp add: create_qdrant_collection_def create_collection_def print_def Let_def)
qed

lemma load_and_split_pdfs_missing:
  assumes "folder nb = None"
  shows "load_and_split_pdfs w nb =
     Inr (nb\<lparr>folder := Some [],
             stdout := stdout nb @ [Created_directory folder_path, Please_add_pdfs]\<rparr>)"
  using assms by (simp add: load_and_split_pdfs_def print_def)

lemma load_and_split_pdfs_listing:
  assumes "folder nb = Some files"
  shows "load_and_split_pdfs w nb =
     Inr (nb\<lparr>documents := Some (fst (load_loop w files ([], 0, []))),
             pdf_files := Some (fst (snd (load_loop w files ([], 0, [])))),
             stdout := stdout nb @ snd (snd (load_loop w files ([], 0, [])))
               @ (if fst (snd (load_loop w files ([], 0, []))) = 0
                  then [No_pdf_files_found folder_path]
                  else [Loaded_and_split (length (fst (load_loop w files ([], 0, []))))
                          (fst (snd (load_loop w files ([], 0, []))))])\<rparr>)"
  using assms by (simp add: load_and_split_pdfs_def print_def split: prod.splits)

lemma create_vector_store_none:
  assumes "documents nb = None \<or> documents nb = Some []"
  shows "create_vector_store w nb = Inr (nb\<lparr>stdout := stdout nb @ [No_documents_loaded]\<rparr>)"
  using assms by (auto simp: create_vector_store_def print_def)

lemma create_vector_store_docs:
  assumes "documents nb = Some docs" "docs \<noteq> []" "collection_name nb = Some name"
    and "store nb = (name, c) # st" "size_param c = model_dimension w"
  shows "create_vector_store w nb =
     Inr (nb\<lparr>store := (name, c\<lparr>points := points c @ embed_documents w docs\<rparr>)
                        # map (\<lambda>(n, c'). if n = name
                                 then (n, c'\<lparr>points := points c' @ embed_documents w docs\<rparr>)
                                 else (n, c')) st,
             vectorstore := Some name,
             trace := trace nb @ [Upsert name (length docs)],
             stdout := stdout nb @ [Creating_embeddings, Uploaded (length docs),
                                    View_collection name]\<rparr>)"
  using assms
  by (simp add: create_vector_store_def from_documents_def print_def log_event_def Let_def)

lemma set_up_llm_and_prompt_eq:
  assumes "GOOGLE_API_KEY nb = Some k"
  shows "set_up_llm_and_prompt nb =
     Inr (nb\<lparr>prompt := Some template, stdout := stdout nb @ [Prompt_template_created]\<rparr>)"
  using assms by (simp add: set_up_llm_and_prompt_def print_def)

lemma create_rag_chain_none:
  assumes "vectorstore nb = None"
  shows "create_rag_chain nb = Inr (nb\<lparr>stdout := stdout nb @ [Vectorstore_not_created]\<rparr>)"
  using assms by (simp add: create_rag_chain_def print_def)

lemma create_rag_chain_some:
  assumes "vectorstore nb = Some vs" "prompt nb = Some t"
  shows "create_rag_chain nb =
     Inr (nb\<lparr>qa_chain := Some \<lparr>retriever_collection = vs, retriever_k = 3,
                                prompt_template = t\<rparr>,
             stdout := stdout nb @ [Chain_ready]\<rparr>)"
  using assms by (simp add: create_rag_chain_def print_def)

text \<open>The three ways a run with a key can go.\<close>

lemma build_missing_folder:
  assumes k: "load_dotenv (dotenv w) (environ nb) ''GOOGLE_API_KEY'' = Some k"
    and f: "folder nb = None" and d: "documents nb = None" and v: "vectorstore nb = None"
  shows "build w nb =
     Inr (nb\<lparr>environ := load_dotenv (dotenv w) (environ nb),
             GOOGLE_API_KEY := Some k,
             embedding_dimension := Some (model_dimension w),
             collection_name := Some ''pdf_documents'',
             store := (''pdf_documents'',
                       \<lparr>size_param = model_dimension w, distance = COSINE, points = []\<rparr>)
                       # delete_collection ''pdf_documents'' (store nb),
             folder := Some [],
             prompt := Some template,
             stdout := stdout nb @ [Api_key_configured, Encoder_ready (model_dimension w)]
               @ (if ''pdf_documents'' \<in> set (get_collections (store nb))
                  then [Deleted_existing_collection ''pdf_documents''] else [])
               @ [Created_collection ''pdf_documents'', Dashboard_available,
                  Created_directory folder_path, Please_add_pdfs, No_documents_loaded,
                  Prompt_template_created, Vectorstore_not_created]\<rparr>)"
  unfolding build_def
  apply (subst and_then_Inr [OF configure_environment_present [OF k]])
  apply (subst and_then_Inr [OF set_up_embedding_model_eq])
  apply (subst and_then_Inr [OF create_qdrant_collection_eq [where d = "model_dimension w"]])
   apply simp
  apply (subst and_then_Inr [OF load_and_split_pdfs_missing])
   apply (simp add: f)
  apply (subst and_then_Inr [OF create_vector_store_none])
   apply (simp add: d)
  apply (subst and_then_Inr [OF set_up_llm_and_prompt_eq [where k = k]])
   apply simp
  apply (subst create_rag_chain_none)
   apply (simp add: v)
  apply simp
  done


lemma build_no_chunks:
  assumes k: "load_dotenv (dotenv w) (environ nb) ''GOOGLE_API_KEY'' = Some k"
    and f: "folder nb = Some files" and e: "fst (load_loop w files ([], 0, [])) = []"
    and v: "vectorstore nb = None"
  shows "build w nb =
     Inr (nb\<lparr>environ := load_dotenv (dotenv w) (environ nb),
             GOOGLE_API_KEY := Some k,
             embedding_dimension := Some (model_dimension w),
             collection_name := Some ''pdf_documents'',
             store := (''pdf_documents'',
                       \<lparr>size_param = model_dimension w, distance = COSINE, points = []\<rparr>)
                       # delete_collection ''pdf_documents'' (store nb),
             documents := Some [],
             pdf_files := Some (fst (snd (load_loop w files ([], 0, [])))),
             prompt := Some template,
             stdout := stdout nb @ [Api_key_configured, Encoder_ready (model_dimension w)]
               @ (if ''pdf_documents'' \<in> set (get_collections (store nb))
                  then [Deleted_existing_collection ''pdf_documents''] else [])
               @ [Created_collection ''pdf_documents'', Dashboard_available]
               @ snd (snd (load_loop w files ([], 0, [])))
               @ (if fst (snd (load_loop w files ([], 0, []))) = 0
                  then [No_pdf_files_found folder_path]
                  else [Loaded_and_split 0 (fst (snd (load_loop w files ([], 0, []))))])
               @ [No_documents_loaded, Prompt_template_created, Vectorstore_not_created]\<rparr>)"
  unfolding build_def
  apply (subst and_then_Inr [OF configure_environment_present [OF k]])
  apply (subst and_then_Inr [OF set_up_embedding_model_eq])
  apply (subst and_then_Inr [OF create_qdrant_collection_eq [where d = "model_dimension w"]])
   apply simp
  apply (subst and_then_Inr [OF load_and_split_pdfs_listing [where files = files]])
   apply (simp add: f)
  apply (subst and_then_Inr [OF create_vector_store_none])
   apply (simp add: e)
  apply (subst and_then_Inr [OF set_up_llm_and_prompt_eq [where k = k]])
   apply simp
  apply (subst create_rag_chain_none)
   apply (simp add: v)
  apply (simp add: e)
  done

lemma build_with_chunks:
  assumes k: "load_dotenv (dotenv w) (environ nb) ''GOOGLE_API_KEY'' = Some k"
    and f: "folder nb = Some files" and e: "fst (load_loop w files ([], 0, [])) \<noteq> []"
  shows "build w nb =
     Inr (nb\<lparr>environ := load_dotenv (dotenv w) (environ nb),
             GOOGLE_API_KEY := Some k,
             embedding_dimension := Some (model_dimension w),
             collection_name := Some ''pdf_documents'',
             store := (''pdf_documents'',
                       \<lparr>size_param = model_dimension w, distance = COSINE,
                        points = embed_documents w (fst (load_loop w files ([], 0, [])))\<rparr>)
                       # delete_collection ''pdf_documents'' (store nb),
             documents := Some (fst (load_loop w files ([], 0, []))),
             pdf_files := Some (fst (snd (load_loop w files ([], 0, [])))),
             vectorstore := Some ''pdf_documents'',
             prompt := Some template,
             qa_chain := Some \<lparr>retriever_collection = ''pdf_documents'', retriever_k = 3,
                                prompt_template = template\<rparr>,
             trace := trace nb
               @ [Upsert ''pdf_documents'' (length (fst (load_loop w files ([], 0, []))))],
             stdout := stdout nb @ [Api_key_configured, Encoder_ready (model_dimension w)]
               @ (if ''pdf_documents'' \<in> set (get_collections (store nb))
                  then [Deleted_existing_collection ''pdf_documents''] else [])
               @ [Created_collection ''pdf_documents'', Dashboard_available]
               @ snd (snd (load_loop w files ([], 0, [])))
               @ (if fst (snd (load_loop w files ([], 0, []))) = 0
                  then [No_pdf_files_found folder_path]
                  else [Loaded_and_split (length (fst (load_loop w files ([], 0, []))))
                          (fst (snd (load_loop w files ([], 0, []))))])
               @ [Creating_embeddings,
                  Uploaded (length (fst (load_loop w files ([], 0, [])))),
                  View_collection ''pdf_documents'',
                  Prompt_template_created, Chain_ready]\<rparr>)"
proof -
  have del: "map (\<lambda>(n, c'). if n = ''pdf_documents''
                 then (n, c'\<lparr>points := points c' @ embed_documents w
                                  (fst (load_loop w files ([], 0, [])))\<rparr>)
                 else (n, c')) (delete_collection ''pdf_documents'' (store nb))
             = delete_collection ''pdf_documents'' (store nb)"
    by (induction "store nb") (auto simp: delete_collection_def intro: map_idI)
  show ?thesis
    unfolding build_def
    apply (subst and_then_Inr [OF configure_environment_present [OF k]])
    apply (subst and_then_Inr [OF set_up_embedding_model_eq])
    apply (subst and_then_Inr [OF create_qdrant_collection_eq [where d = "model_dimension w"]])
     apply simp
    apply (subst and_then_Inr [OF load_and_split_pdfs_listing [where files = files]])
     apply (simp add: f)
    apply (subst and_then_Inr [OF create_vector_store_docs
            [where docs = "fst (load_loop w files ([], 0, []))" and name = "''pdf_documents''"
               and c = "\<lparr>size_param = model_dimension w, distance = COSINE, points = []\<rparr>"
               and st = "delete_collection ''pdf_documents'' (store nb)"]])
         apply simp
        apply (rule e)
       apply simp
      apply simp
     apply simp
    apply (subst and_then_Inr [OF set_up_llm_and_prompt_eq [where k = k]])
     apply simp
    apply (subst create_rag_chain_some [where vs = "''pdf_documents''" and t = template])
      apply simp
     apply simp
    apply (simp add: del)
    done
qed

subsection \<open>Configuration, collection and dimension\<close>

lemma build_absent:
  assumes "load_dotenv (dotenv w) (environ nb) ''GOOGLE_API_KEY'' = None"
  shows "build w nb = Inl (TypeError, nb\<lparr>environ := load_dotenv (dotenv w) (environ nb)\<rparr>)"
  unfolding build_def
  by (simp add: configure_environment_absent [OF assms] and_then_def)

lemma load_dotenv_lookup:
  "load_dotenv file env k = (case env k of None \<Rightarrow> file k | Some v \<Rightarrow> Some v)"
  by (simp add: load_dotenv_def map_add_def)

text \<open>
  C8 (as amended). The key is looked up after \<open>load_dotenv()\<close> has run. If neither the
  process environment nor the \<open>.env\<close> file has the variable, the configuration cell
  raises (the \<open>TypeError\<close> of assigning \<open>None\<close> to \<open>os.environ\<close>) and the run ends there:
  nothing is printed and no later cell runs. If the environment or, failing that, the
  \<open>.env\<close> file has it, the cell returns with the key bound and the next cell runs.
\<close>

theorem api_key_configuration:
  "(environ nb ''GOOGLE_API_KEY'' = None \<and> dotenv w ''GOOGLE_API_KEY'' = None \<longrightarrow>
      configure_environment w nb
        = Inl (TypeError, nb\<lparr>environ := load_dotenv (dotenv w) (environ nb)\<rparr>)
      \<and> run_all w nb
        = Inl (TypeError, nb\<lparr>environ := load_dotenv (dotenv w) (environ nb)\<rparr>))
   \<and> (\<forall>k. environ nb ''GOOGLE_API_KEY'' = Some k
          \<or> (environ nb ''GOOGLE_API_KEY'' = None \<and> dotenv w ''GOOGLE_API_KEY'' = Some k) \<longrightarrow>
      configure_environment w nb
        = Inr (nb\<lparr>environ := load_dotenv (dotenv w) (environ nb),
                  GOOGLE_API_KEY := Some k,
                  stdout := stdout nb @ [Api_key_configured]\<rparr>)
      \<and> and_then (configure_environment w nb) (set_up_embedding_model w)
        = Inr (nb\<lparr>environ := load_dotenv (dotenv w) (environ nb),
                  GOOGLE_API_KEY := Some k,
                  embedding_dimension := Some (model_dimension w),
                  stdout := stdout nb @ [Api_key_configured,
                                         Encoder_ready (model_dimension w)]\<rparr>))"
proof (intro conjI impI allI)
  assume a: "environ nb ''GOOGLE_API_KEY'' = None \<and> dotenv w ''GOOGLE_API_KEY'' = None"
  then have n: "load_dotenv (dotenv w) (environ nb) ''GOOGLE_API_KEY'' = None"
    by (simp add: load_dotenv_lookup)
  show "configure_environment w nb
        = Inl (TypeError, nb\<lparr>environ := load_dotenv (dotenv w) (environ nb)\<rparr>)"
    by (rule configure_environment_absent [OF n])
  show "run_all w nb
        = Inl (TypeError, nb\<lparr>environ := load_dotenv (dotenv w) (environ nb)\<rparr>)"
    unfolding run_all_def by (rule and_then_Inl [OF build_absent [OF n]])
next
  fix k
  assume "environ nb ''GOOGLE_API_KEY'' = Some k
          \<or> (environ nb ''GOOGLE_API_KEY'' = None \<and> dotenv w ''GOOGLE_API_KEY'' = Some k)"
  then have s: "load_dotenv (dotenv w) (environ nb) ''GOOGLE_API_KEY'' = Some k"
    by (auto simp: load_dotenv_lookup)
  show c: "configure_environment w nb
        = Inr (nb\<lparr>environ := load_dotenv (dotenv w) (environ nb),
                  GOOGLE_API_KEY := Some k,
                  stdout := stdout nb @ [Api_key_configured]\<rparr>)"
    by (rule configure_environment_present [OF s])
  show "and_then (configure_environment w nb) (set_up_embedding_model w)
        = Inr (nb\<lparr>environ := load_dotenv (dotenv w) (environ nb),
                  GOOGLE_API_KEY := Some k,
                  embedding_dimension := Some (model_dimension w),
                  stdout := stdout nb @ [Api_key_configured,
                                         Encoder_ready (model_dimension w)]\<rparr>)"
    by (simp add: and_then_Inr [OF c] set_up_embedding_model_eq)
qed

theorem api_key_configuration_witness:
  "environ keyless_kernel ''GOOGLE_API_KEY'' = None
   \<and> dotenv example_world ''GOOGLE_API_KEY'' = None
   \<and> run_all example_world keyless_kernel = Inl (TypeError, keyless_kernel)
   \<and> environ example_kernel ''GOOGLE_API_KEY'' = Some ''secret''
   \<and> configure_environment example_world example_kernel
       = Inr (example_kernel\<lparr>GOOGLE_API_KEY := Some ''secret'',
                              stdout := [Api_key_configured]\<rparr>)"
proof -
  have a: "environ keyless_kernel ''GOOGLE_API_KEY'' = None"
    and b: "dotenv example_world ''GOOGLE_API_KEY'' = None"
    and c: "environ example_kernel ''GOOGLE_API_KEY'' = Some ''secret''"
    by (simp_all add: keyless_kernel_def example_kernel_def example_world_def fresh_kernel_def)
  have e: "load_dotenv (dotenv example_world) (environ keyless_kernel) = environ keyless_kernel"
    "load_dotenv (dotenv example_world) (environ example_kernel) = environ example_kernel"
    by (simp_all add: load_dotenv_def example_world_def)
  have "run_all example_world keyless_kernel = Inl (TypeError, keyless_kernel)"
    using api_key_configuration [of keyless_kernel example_world] a b by (simp add: e)
  moreover have "configure_environment example_world example_kernel
       = Inr (example_kernel\<lparr>GOOGLE_API_KEY := Some ''secret'',
                              stdout := [Api_key_configured]\<rparr>)"
    using api_key_configuration [of example_kernel example_world] c
    by (simp add: e) (simp add: example_kernel_def fresh_kernel_def)
  ultimately show ?thesis using a b c by simp
qed

text \<open>
  C8, as stated, fails here: the variable is missing from the process environment, the
  \<open>.env\<close> file has it, and the configuration cell does not raise.
\<close>

theorem api_key_from_dotenv_file:
  "environ keyless_kernel ''GOOGLE_API_KEY'' = None
   \<and> configure_environment dotenv_world keyless_kernel
       = Inr (keyless_kernel\<lparr>environ := [''GOOGLE_API_KEY'' \<mapsto> ''from-file''],
                              GOOGLE_API_KEY := Some ''from-file'',
                              stdout := [Api_key_configured]\<rparr>)"
proof -
  have l: "load_dotenv (dotenv dotenv_world) (environ keyless_kernel)
             = [''GOOGLE_API_KEY'' \<mapsto> ''from-file'']"
    by (simp add: load_dotenv_def dotenv_world_def keyless_kernel_def fresh_kernel_def)
  have "load_dotenv (dotenv dotenv_world) (environ keyless_kernel) ''GOOGLE_API_KEY''
          = Some ''from-file''"
    unfolding l by simp
  from configure_environment_present [OF this]
  show ?thesis unfolding l by (simp add: keyless_kernel_def fresh_kernel_def)
qed


lemma map_of_delete_collection_other:
  "name' \<noteq> name \<Longrightarrow> map_of (delete_collection name st) name' = map_of st name'"
  by (induction st) (auto simp: delete_collection_def)

lemma filter_delete_collection:
  "filter (\<lambda>(n, c). n = name) (delete_collection name st) = []"
  by (induction st) (auto simp: delete_collection_def)

lemma repeat_create_collection:
  assumes "embedding_dimension nb = Some d"
  shows "\<exists>nb'. repeat_cell (Suc n) create_qdrant_collection nb = Inr nb'
           \<and> store nb' = (''pdf_documents'', \<lparr>size_param = d, distance = COSINE, points = []\<rparr>)
                       # delete_collection ''pdf_documents'' (store nb)
           \<and> embedding_dimension nb' = Some d"
  using assms
proof (induction n arbitrary: nb)
  case 0
  then show ?case by (simp add: create_qdrant_collection_eq and_then_def)
next
  case (Suc n)
  let ?nb1 = "nb\<lparr>collection_name := Some ''pdf_documents'',
             store := (''pdf_documents'', \<lparr>size_param = d, distance = COSINE, points = []\<rparr>)
                       # delete_collection ''pdf_documents'' (store nb),
             stdout := stdout nb @
               (if ''pdf_documents'' \<in> set (get_collections (store nb))
                then [Deleted_existing_collection ''pdf_documents''] else [])
               @ [Created_collection ''pdf_documents'', Dashboard_available]\<rparr>"
  have e: "embedding_dimension ?nb1 = Some d" using Suc.prems by simp
  from Suc.IH [OF e] obtain nb' where
    r: "repeat_cell (Suc n) create_qdrant_collection ?nb1 = Inr nb'"
    and s: "store nb' = (''pdf_documents'', \<lparr>size_param = d, distance = COSINE, points = []\<rparr>)
                       # delete_collection ''pdf_documents'' (store ?nb1)"
    and d: "embedding_dimension nb' = Some d" by blast
  have "repeat_cell (Suc (Suc n)) create_qdrant_collection nb
          = repeat_cell (Suc n) create_qdrant_collection ?nb1"
    using create_qdrant_collection_eq [OF Suc.prems]
    by (simp add: and_then_def del: repeat_cell.simps(2)) (simp add: and_then_def)
  moreover have "delete_collection ''pdf_documents'' (store ?nb1)
                   = delete_collection ''pdf_documents'' (store nb)"
    by (simp add: delete_collection_def)
  ultimately show ?case using r s d by simp
qed

text \<open>
  C2. Once the embedding dimension is declared, running the collection cell one or more
  times in succession always returns, whatever the store held before, and leaves exactly
  one collection named \<open>pdf_documents\<close>: it is empty, has the declared dimension and the
  cosine metric. A collection of that name that existed before, with whatever data,
  dimension or metric, is gone; collections of other names are untouched.
\<close>

theorem collection_reset:
  assumes "embedding_dimension nb = Some d"
  shows "\<exists>nb'. repeat_cell (Suc n) create_qdrant_collection nb = Inr nb'
           \<and> map_of (store nb') ''pdf_documents''
               = Some \<lparr>size_param = d, distance = COSINE, points = []\<rparr>
           \<and> filter (\<lambda>(name, c). name = ''pdf_documents'') (store nb')
               = [(''pdf_documents'', \<lparr>size_param = d, distance = COSINE, points = []\<rparr>)]
           \<and> (\<forall>name. name \<noteq> ''pdf_documents''
                 \<longrightarrow> map_of (store nb') name = map_of (store nb) name)"
proof -
  from repeat_create_collection [OF assms, of n] obtain nb' where
    r: "repeat_cell (Suc n) create_qdrant_collection nb = Inr nb'"
    and s: "store nb' = (''pdf_documents'', \<lparr>size_param = d, distance = COSINE, points = []\<rparr>)
                       # delete_collection ''pdf_documents'' (store nb)"
    by blast
  have "map_of (store nb') ''pdf_documents''
               = Some \<lparr>size_param = d, distance = COSINE, points = []\<rparr>"
    by (simp add: s)
  moreover have "filter (\<lambda>(name, c). name = ''pdf_documents'') (store nb')
               = [(''pdf_documents'', \<lparr>size_param = d, distance = COSINE, points = []\<rparr>)]"
    by (simp add: s filter_delete_collection)
  moreover have "\<forall>name. name \<noteq> ''pdf_documents''
                 \<longrightarrow> map_of (store nb') name = map_of (store nb) name"
    by (simp add: s map_of_delete_collection_other)
  ultimately show ?thesis using r by blast
qed

theorem collection_reset_witness:
  "embedding_dimension stale_notebook = Some 2
   \<and> map_of (store stale_notebook) ''pdf_documents''
       = Some \<lparr>size_param = 7, distance = EUCLID,
               points = [\<lparr>payload = paris_chunk, vector = [1, 0]\<rparr>]\<rparr>
   \<and> (\<exists>nb'. repeat_cell 2 create_qdrant_collection stale_notebook = Inr nb'
         \<and> store nb' = [(''pdf_documents'', \<lparr>size_param = 2, distance = COSINE, points = []\<rparr>),
                        (''other'', \<lparr>size_param = 5, distance = DOT, points = []\<rparr>)])"
proof -
  have a: "embedding_dimension stale_notebook = Some 2"
    by (simp add: stale_notebook_def)
  have b: "map_of (store stale_notebook) ''pdf_documents''
       = Some \<lparr>size_param = 7, distance = EUCLID,
               points = [\<lparr>payload = paris_chunk, vector = [1, 0]\<rparr>]\<rparr>"
    by (simp add: stale_notebook_def fresh_kernel_def)
  have two: "(2::nat) = Suc (Suc 0)" by simp
  from collection_reset [OF a, of "Suc 0"] obtain nb' where
    r: "repeat_cell (Suc (Suc 0)) create_qdrant_collection stale_notebook = Inr nb'"
    and f: "filter (\<lambda>(name, c). name = ''pdf_documents'') (store nb')
               = [(''pdf_documents'', \<lparr>size_param = 2, distance = COSINE, points = []\<rparr>)]"
    by blast
  have e: "repeat_cell (Suc (Suc 0)) create_qdrant_collection stale_notebook
        = Inr (stale_notebook\<lparr>collection_name := Some ''pdf_documents'',
              store := [(''pdf_documents'', \<lparr>size_param = 2, distance = COSINE, points = []\<rparr>),
                        (''other'', \<lparr>size_param = 5, distance = DOT, points = []\<rparr>)],
              stdout := [Deleted_existing_collection ''pdf_documents'',
                         Created_collection ''pdf_documents'', Dashboard_available,
                         Deleted_existing_collection ''pdf_documents'',
                         Created_collection ''pdf_documents'', Dashboard_available]\<rparr>)"
    by (simp add: and_then_def create_qdrant_collection_def create_collection_def
          get_collections_def delete_collection_def print_def stale_notebook_def
          fresh_kernel_def Let_def)
  have "store nb' = [(''pdf_documents'', \<lparr>size_param = 2, distance = COSINE, points = []\<rparr>),
                        (''other'', \<lparr>size_param = 5, distance = DOT, points = []\<rparr>)]"
    using r unfolding e by auto
  then show ?thesis using a b r unfolding two by blast
qed

text \<open>
  C7. The dimension is read from the loaded model once, in the embedding cell, and the
  collection cell passes that number to the store unchanged: whatever the state before,
  the two cells return and leave the collection \<open>pdf_documents\<close> with the model's
  dimension. With an encoder whose vectors have the length it reports, every vector the
  encoder produces has the dimension of the collection, and at the end of the cells of a
  fresh run every record of the collection has a vector of that length.
\<close>

theorem collection_dimension_is_embedding_length:
  "(\<exists>nb'. and_then (set_up_embedding_model w nb) create_qdrant_collection = Inr nb'
        \<and> embedding_dimension nb' = Some (get_sentence_embedding_dimension w)
        \<and> map_of (store nb') ''pdf_documents''
            = Some \<lparr>size_param = get_sentence_embedding_dimension w, distance = COSINE,
                    points = []\<rparr>)
   \<and> ((\<forall>t. length (encode w t) = get_sentence_embedding_dimension w)
        \<and> documents nb = None \<and> vectorstore nb = None \<and> build w nb = Inr nb2 \<longrightarrow>
       (\<exists>c. map_of (store nb2) ''pdf_documents'' = Some c
          \<and> size_param c = get_sentence_embedding_dimension w
          \<and> (\<forall>t. length (encode w t) = size_param c)
          \<and> (\<forall>p\<in>set (points c). length (vector p) = size_param c)))"
proof (intro conjI impI)
  let ?nb1 = "nb\<lparr>embedding_dimension := Some (model_dimension w),
                 stdout := stdout nb @ [Encoder_ready (model_dimension w)]\<rparr>"
  have e: "embedding_dimension ?nb1 = Some (model_dimension w)" by simp
  show "\<exists>nb'. and_then (set_up_embedding_model w nb) create_qdrant_collection = Inr nb'
        \<and> embedding_dimension nb' = Some (get_sentence_embedding_dimension w)
        \<and> map_of (store nb') ''pdf_documents''
            = Some \<lparr>size_param = get_sentence_embedding_dimension w, distance = COSINE,
                    points = []\<rparr>"
    unfolding and_then_Inr [OF set_up_embedding_model_eq] create_qdrant_collection_eq [OF e]
    by (simp add: get_sentence_embedding_dimension_def)
next
  assume a: "(\<forall>t. length (encode w t) = get_sentence_embedding_dimension w)
        \<and> documents nb = None \<and> vectorstore nb = None \<and> build w nb = Inr nb2"
  then have len: "\<And>t. length (encode w t) = model_dimension w"
    and d: "documents nb = None" and v: "vectorstore nb = None"
    and b: "build w nb = Inr nb2"
    by (simp_all add: get_sentence_embedding_dimension_def)
  let ?docs = "\<lambda>files. fst (load_loop w files ([], 0, []))"
  have "\<exists>docs. store nb2 = (''pdf_documents'',
                       \<lparr>size_param = model_dimension w, distance = COSINE,
                        points = embed_documents w docs\<rparr>)
                       # delete_collection ''pdf_documents'' (store nb)"
  proof (cases "load_dotenv (dotenv w) (environ nb) ''GOOGLE_API_KEY''")
    case None
    from build_absent [OF None] b show ?thesis by simp
  next
    case (Some k)
    show ?thesis
    proof (cases "folder nb")
      case None
      from build_missing_folder [OF Some None d v] b
      have "store nb2 = (''pdf_documents'',
                       \<lparr>size_param = model_dimension w, distance = COSINE,
                        points = embed_documents w []\<rparr>)
                       # delete_collection ''pdf_documents'' (store nb)"
        by (auto simp: embed_documents_def)
      then show ?thesis by blast
    next
      case (Some files)
      note f = this
      show ?thesis
      proof (cases "?docs files = []")
        case True
        from build_no_chunks [OF \<open>load_dotenv (dotenv w) (environ nb) ''GOOGLE_API_KEY'' = Some k\<close> f True v] b
        have "store nb2 = (''pdf_documents'',
                       \<lparr>size_param = model_dimension w, distance = COSINE,
                        points = embed_documents w []\<rparr>)
                       # delete_collection ''pdf_documents'' (store nb)"
          by (auto simp: embed_documents_def)
        then show ?thesis by blast
      next
        case False
        from build_with_chunks [OF \<open>load_dotenv (dotenv w) (environ nb) ''GOOGLE_API_KEY'' = Some k\<close> f False] b
        have "store nb2 = (''pdf_documents'',
                       \<lparr>size_param = model_dimension w, distance = COSINE,
                        points = embed_documents w (?docs files)\<rparr>)
                       # delete_collection ''pdf_documents'' (store nb)"
          by auto
        then show ?thesis by blast
      qed
    qed
  qed
  then obtain docs where s: "store nb2 = (''pdf_documents'',
                       \<lparr>size_param = model_dimension w, distance = COSINE,
                        points = embed_documents w docs\<rparr>)
                       # delete_collection ''pdf_documents'' (store nb)"
    by blast
  let ?c = "\<lparr>size_param = model_dimension w, distance = COSINE,
             points = embed_documents w docs\<rparr>"
  have "map_of (store nb2) ''pdf_documents'' = Some ?c" by (simp add: s)
  moreover have "size_param ?c = get_sentence_embedding_dimension w"
    by (simp add: get_sentence_embedding_dimension_def)
  moreover have "\<forall>t. length (encode w t) = size_param ?c" by (simp add: len)
  moreover have "\<forall>p\<in>set (points ?c). length (vector p) = size_param ?c"
    by (auto simp: embed_documents_def len)
  ultimately show "\<exists>c. map_of (store nb2) ''pdf_documents'' = Some c
          \<and> size_param c = get_sentence_embedding_dimension w
          \<and> (\<forall>t. length (encode w t) = size_param c)
          \<and> (\<forall>p\<in>set (points c). length (vector p) = size_param c)"
    by blast
qed

subsection \<open>The example run, and runs without input\<close>

lemma example_key:
  "load_dotenv (dotenv example_world) (environ example_kernel) ''GOOGLE_API_KEY'' = Some ''secret''"
  by (simp add: load_dotenv_def example_world_def example_kernel_def fresh_kernel_def)

lemma example_folder: "folder example_kernel = Some [''a.PDF'', ''notes.txt'', ''b.pdf'']"
  by (simp add: example_kernel_def fresh_kernel_def)

lemma example_filter:
  "filter (\<lambda>f. endswith (lower f) ''.pdf'') [''a.PDF'', ''notes.txt'', ''b.pdf'']
     = [''a.PDF'', ''b.pdf'']"
  by code_simp

lemma example_load_loop:
  "load_loop example_world [''a.PDF'', ''notes.txt'', ''b.pdf''] ([], 0, []) =
     ([\<lparr>page_content = ''./pdfs/a.PDF'', source = ''./pdfs/a.PDF'', page = 0\<rparr>,
       \<lparr>page_content = ''./pdfs/b.pdf'', source = ''./pdfs/b.pdf'', page = 0\<rparr>],
      2, [Loading ''a.PDF'', Loading ''b.pdf''])"
  unfolding load_loop_filter example_filter
  by (simp add: example_world_def path_join_def folder_path_def)

lemma example_build:
  "\<exists>nb. build example_world example_kernel = Inr nb
     \<and> qa_chain nb = Some \<lparr>retriever_collection = ''pdf_documents'', retriever_k = 3,
                            prompt_template = template\<rparr>
     \<and> store nb = [(''pdf_documents'', \<lparr>size_param = 2, distance = COSINE,
          points = [\<lparr>payload = \<lparr>page_content = ''./pdfs/a.PDF'', source = ''./pdfs/a.PDF'',
                                  page = 0\<rparr>, vector = [1, 0]\<rparr>,
                    \<lparr>payload = \<lparr>page_content = ''./pdfs/b.pdf'', source = ''./pdfs/b.pdf'',
                                  page = 0\<rparr>, vector = [1, 0]\<rparr>]\<rparr>)]
     \<and> stdin nb = [''What is X?'', [], ''QUIT'']
     \<and> trace nb = [Upsert ''pdf_documents'' 2]"
proof -
  have e: "fst (load_loop example_world [''a.PDF'', ''notes.txt'', ''b.pdf''] ([], 0, [])) \<noteq> []"
    unfolding example_load_loop by simp
  show ?thesis
    unfolding build_with_chunks [OF example_key example_folder e] example_load_loop
    by (simp add: example_kernel_def fresh_kernel_def example_world_def embed_documents_def
          delete_collection_def)
qed

theorem collection_dimension_is_embedding_length_witness:
  "(\<forall>t. length (encode example_world t) = get_sentence_embedding_dimension example_world)
   \<and> documents example_kernel = None \<and> vectorstore example_kernel = None
   \<and> (\<exists>nb2 c. build example_world example_kernel = Inr nb2
         \<and> map_of (store nb2) ''pdf_documents'' = Some c
         \<and> size_param c = 2 \<and> length (points c) = 2
         \<and> (\<forall>p\<in>set (points c). length (vector p) = 2))"
proof -
  have a: "\<forall>t. length (encode example_world t) = get_sentence_embedding_dimension example_world"
    by (simp add: example_world_def get_sentence_embedding_dimension_def)
  have d: "documents example_kernel = None" and v: "vectorstore example_kernel = None"
    by (simp_all add: example_kernel_def fresh_kernel_def)
  from example_build obtain nb2 where
    b: "build example_world example_kernel = Inr nb2"
    and s: "store nb2 = [(''pdf_documents'', \<lparr>size_param = 2, distance = COSINE,
          points = [\<lparr>payload = \<lparr>page_content = ''./pdfs/a.PDF'', source = ''./pdfs/a.PDF'',
                                  page = 0\<rparr>, vector = [1, 0]\<rparr>,
                    \<lparr>payload = \<lparr>page_content = ''./pdfs/b.pdf'', source = ''./pdfs/b.pdf'',
                                  page = 0\<rparr>, vector = [1, 0]\<rparr>]\<rparr>)]"
    by blast
  from collection_dimension_is_embedding_length [of example_world example_kernel nb2] a d v b
  obtain c where c: "map_of (store nb2) ''pdf_documents'' = Some c"
    "size_param c = get_sentence_embedding_dimension example_world"
    "\<forall>p\<in>set (points c). length (vector p) = size_param c"
    by blast
  have "size_param c = 2" "length (points c) = 2"
    using c(1) by (auto simp: s)
  then show ?thesis using a d v b c by auto
qed


lemma load_loop_no_pdf:
  assumes "filter (\<lambda>f. endswith (lower f) ''.pdf'') files = []"
  shows "load_loop w files ([], 0, []) = ([], 0, [])"
  unfolding load_loop_filter assms by simp

text \<open>
  C5 (as amended). In a fresh run neither empty-input condition raises or reaches the
  store. If the folder does not exist, the ingestion cell creates it and prints the two
  lines of guidance; it binds neither \<open>documents\<close> nor \<open>pdf_files\<close> and reports no count.
  If the folder exists and no name in it passes the extension test, the cell binds
  \<open>pdf_files\<close> to 0 and \<open>documents\<close> to the empty list and prints that no PDF files were
  found. In both cases the indexing cell only prints that no documents were loaded: the
  store, the trace of service calls and \<open>vectorstore\<close> are as before. Run from the
  start, the cells up to the chain then return with the collection empty, no upsert in
  the trace and no chain built.
\<close>

theorem empty_input_skips_indexing:
  "(folder nb = None \<and> documents nb = None \<longrightarrow>
      and_then (load_and_split_pdfs w nb) (create_vector_store w)
        = Inr (nb\<lparr>folder := Some [],
                  stdout := stdout nb @ [Created_directory folder_path, Please_add_pdfs,
                                         No_documents_loaded]\<rparr>))
   \<and> (\<forall>files. folder nb = Some files
          \<and> filter (\<lambda>f. endswith (lower f) ''.pdf'') files = [] \<longrightarrow>
      and_then (load_and_split_pdfs w nb) (create_vector_store w)
        = Inr (nb\<lparr>documents := Some [], pdf_files := Some 0,
                  stdout := stdout nb @ [No_pdf_files_found folder_path,
                                         No_documents_loaded]\<rparr>))
   \<and> (\<forall>k. load_dotenv (dotenv w) (environ nb) ''GOOGLE_API_KEY'' = Some k
          \<and> vectorstore nb = None
          \<and> ((folder nb = None \<and> documents nb = None)
              \<or> (\<exists>files. folder nb = Some files
                    \<and> filter (\<lambda>f. endswith (lower f) ''.pdf'') files = [])) \<longrightarrow>
      (\<exists>nb'. build w nb = Inr nb'
         \<and> trace nb' = trace nb \<and> vectorstore nb' = None \<and> qa_chain nb' = qa_chain nb
         \<and> map_of (store nb') ''pdf_documents''
              = Some \<lparr>size_param = model_dimension w, distance = COSINE, points = []\<rparr>))"
proof (intro conjI allI impI)
  assume a: "folder nb = None \<and> documents nb = None"
  show "and_then (load_and_split_pdfs w nb) (create_vector_store w)
        = Inr (nb\<lparr>folder := Some [],
                  stdout := stdout nb @ [Created_directory folder_path, Please_add_pdfs,
                                         No_documents_loaded]\<rparr>)"
    using a
    by (simp add: and_then_Inr [OF load_and_split_pdfs_missing] create_vector_store_none)
next
  fix files
  assume a: "folder nb = Some files \<and> filter (\<lambda>f. endswith (lower f) ''.pdf'') files = []"
  then have f: "folder nb = Some files"
    and l: "load_loop w files ([], 0, []) = ([], 0, [])"
    by (simp_all add: load_loop_no_pdf)
  show "and_then (load_and_split_pdfs w nb) (create_vector_store w)
        = Inr (nb\<lparr>documents := Some [], pdf_files := Some 0,
                  stdout := stdout nb @ [No_pdf_files_found folder_path,
                                         No_documents_loaded]\<rparr>)"
    unfolding and_then_Inr [OF load_and_split_pdfs_listing [OF f]] l
    by (simp add: create_vector_store_none)
next
  fix k
  assume a: "load_dotenv (dotenv w) (environ nb) ''GOOGLE_API_KEY'' = Some k
          \<and> vectorstore nb = None
          \<and> ((folder nb = None \<and> documents nb = None)
              \<or> (\<exists>files. folder nb = Some files
                    \<and> filter (\<lambda>f. endswith (lower f) ''.pdf'') files = []))"
  then have k: "load_dotenv (dotenv w) (environ nb) ''GOOGLE_API_KEY'' = Some k"
    and v: "vectorstore nb = None" by simp_all
  from a consider (missing) "folder nb = None" "documents nb = None"
    | (empty) files where "folder nb = Some files"
        "filter (\<lambda>f. endswith (lower f) ''.pdf'') files = []"
    by auto
  then show "\<exists>nb'. build w nb = Inr nb'
         \<and> trace nb' = trace nb \<and> vectorstore nb' = None \<and> qa_chain nb' = qa_chain nb
         \<and> map_of (store nb') ''pdf_documents''
              = Some \<lparr>size_param = model_dimension w, distance = COSINE, points = []\<rparr>"
  proof cases
    case missing
    show ?thesis
      unfolding build_missing_folder [OF k missing v] by (simp add: v)
  next
    case empty
    have e: "fst (load_loop w files ([], 0, [])) = []"
      by (simp add: load_loop_no_pdf [OF empty(2)])
    show ?thesis
      unfolding build_no_chunks [OF k empty(1) e v] by (simp add: v)
  qed
qed

theorem empty_input_skips_indexing_witness:
  "folder missing_kernel = None \<and> documents missing_kernel = None
   \<and> and_then (load_and_split_pdfs example_world missing_kernel)
        (create_vector_store example_world)
       = Inr (missing_kernel\<lparr>folder := Some [],
                stdout := [Created_directory ''./pdfs'', Please_add_pdfs, No_documents_loaded]\<rparr>)
   \<and> folder no_pdf_kernel = Some [''notes.txt'', ''pdf'']
   \<and> filter (\<lambda>f. endswith (lower f) ''.pdf'') [''notes.txt'', ''pdf''] = []
   \<and> and_then (load_and_split_pdfs example_world no_pdf_kernel)
        (create_vector_store example_world)
       = Inr (no_pdf_kernel\<lparr>documents := Some [], pdf_files := Some 0,
                stdout := [No_pdf_files_found ''./pdfs'', No_documents_loaded]\<rparr>)"
proof -
  have a: "folder missing_kernel = None" "documents missing_kernel = None"
    "stdout missing_kernel = []"
    by (simp_all add: missing_kernel_def fresh_kernel_def)
  have b: "folder no_pdf_kernel = Some [''notes.txt'', ''pdf'']" "stdout no_pdf_kernel = []"
    by (simp_all add: no_pdf_kernel_def fresh_kernel_def)
  have c: "filter (\<lambda>f. endswith (lower f) ''.pdf'') [''notes.txt'', ''pdf''] = []"
    by code_simp
  have "and_then (load_and_split_pdfs example_world missing_kernel)
        (create_vector_store example_world)
       = Inr (missing_kernel\<lparr>folder := Some [],
                stdout := [Created_directory ''./pdfs'', Please_add_pdfs, No_documents_loaded]\<rparr>)"
    using empty_input_skips_indexing [of missing_kernel example_world] a
    by (simp add: folder_path_def)
  moreover have "and_then (load_and_split_pdfs example_world no_pdf_kernel)
        (create_vector_store example_world)
       = Inr (no_pdf_kernel\<lparr>documents := Some [], pdf_files := Some 0,
                stdout := [No_pdf_files_found ''./pdfs'', No_documents_loaded]\<rparr>)"
    using empty_input_skips_indexing [of no_pdf_kernel example_world] b c
    by (simp add: folder_path_def)
  ultimately show ?thesis using a b c by simp
qed

text \<open>
  C5, as stated, fails here: the folder is missing, the cell prints the guidance, but no
  count is reported, neither printed nor bound to \<open>pdf_files\<close>.
\<close>

theorem missing_folder_reports_no_count:
  "folder missing_kernel = None
   \<and> load_and_split_pdfs example_world missing_kernel
       = Inr (missing_kernel\<lparr>folder := Some [],
                stdout := [Created_directory ''./pdfs'', Please_add_pdfs]\<rparr>)
   \<and> pdf_files (missing_kernel\<lparr>folder := Some [],
                stdout := [Created_directory ''./pdfs'', Please_add_pdfs]\<rparr>) = None
   \<and> documents (missing_kernel\<lparr>folder := Some [],
                stdout := [Created_directory ''./pdfs'', Please_add_pdfs]\<rparr>) = None
   \<and> No_pdf_files_found ''./pdfs''
        \<notin> set (stdout (missing_kernel\<lparr>folder := Some [],
                stdout := [Created_directory ''./pdfs'', Please_add_pdfs]\<rparr>))"
  by (simp add: load_and_split_pdfs_def print_def missing_kernel_def fresh_kernel_def
        folder_path_def)

subsection \<open>Questions\<close>

lemma asked_append: "asked (xs @ ys) = asked xs @ asked ys"
  by (induction xs rule: asked.induct) simp_all

lemma ask_question_uninitialized:
  assumes "qa_chain nb = None"
  shows "ask_question w question nb
           = Inr (None, nb\<lparr>stdout := stdout nb @ [Chain_not_created]\<rparr>)"
  using assms by (simp add: ask_question_def print_def)

lemma ask_question_ready:
  assumes "ready nb"
  shows "\<exists>ch c p.
           qa_chain nb = Some ch \<and> retriever_k ch = 3
         \<and> map_of (store nb) (retriever_collection ch) = Some c
         \<and> format_prompt template
              (join ''\<newline>\<newline>''
                 (map page_content (map payload (query w c (encode w question) 3))))
              question = Inr p
         \<and> ask_question w question nb
             = Inr (Some (llm w p, map payload (query w c (encode w question) 3)),
                    nb\<lparr>trace := trace nb @ [Embed question,
                                              Search (retriever_collection ch) 3, Generate p],
                       stdout := stdout nb @ [Question_banner question,
                                              Answer_text (llm w p)]\<rparr>)"
proof -
  from assms obtain ch c where ch: "qa_chain nb = Some ch"
    and t: "prompt_template ch = template" and k: "retriever_k ch = 3"
    and c: "map_of (store nb) (retriever_collection ch) = Some c"
    by (auto simp: ready_def split: option.splits)
  let ?docs = "map payload (query w c (encode w question) 3)"
  let ?p = "template_head @ join ''\<newline>\<newline>'' (map page_content ?docs) @ template_middle
            @ question @ template_format @ question @ ''\<newline>''"
  have "format_prompt template (join ''\<newline>\<newline>'' (map page_content ?docs)) question
          = Inr ?p"
    by (rule format_prompt_template)
  moreover have "ask_question w question nb
             = Inr (Some (llm w ?p, ?docs),
                    nb\<lparr>trace := trace nb @ [Embed question,
                                              Search (retriever_collection ch) 3, Generate ?p],
                       stdout := stdout nb @ [Question_banner question,
                                              Answer_text (llm w ?p)]\<rparr>)"
    by (simp add: ask_question_def ch invoke_chain_template [OF t c] k Let_def print_def)
  ultimately show ?thesis using ch k c by blast
qed

lemma ready_frame:
  assumes "ready nb" "qa_chain nb' = qa_chain nb" "store nb' = store nb"
  shows "ready nb'"
  using assms by (auto simp: ready_def split: option.splits)

lemma ask_question_ready_frame:
  assumes "ready nb"
  shows "\<exists>r nb'. ask_question w question nb = Inr (Some r, nb')
           \<and> asked (trace nb') = asked (trace nb) @ [question]
           \<and> qa_chain nb' = qa_chain nb \<and> store nb' = store nb \<and> stdin nb' = stdin nb"
  using ask_question_ready [OF assms, of w question]
  by (elim exE conjE) (simp add: asked_append)

lemma qa_loop_exit:
  assumes "lower l \<in> set exit_words"
  shows "qa_loop w (l # rest) nb
           = Inr (nb\<lparr>stdin := rest, stdout := stdout nb @ [Enter_your_question, Goodbye]\<rparr>)"
  using assms by (simp add: print_def Let_def)

lemma qa_loop_step:
  assumes r: "ready nb" and n: "lower l \<notin> set exit_words"
  shows "\<exists>r nb'. ask_question w l (nb\<lparr>stdin := rest,
                       stdout := stdout nb @ [Enter_your_question]\<rparr>) = Inr (Some r, nb')
           \<and> asked (trace nb') = asked (trace nb) @ [l]
           \<and> ready nb'
           \<and> qa_loop w (l # rest) nb = qa_loop w rest nb'"
proof -
  let ?nb1 = "nb\<lparr>stdin := rest, stdout := stdout nb @ [Enter_your_question]\<rparr>"
  have r1: "ready ?nb1" using r by (rule ready_frame) simp_all
  from ask_question_ready_frame [OF r1, of w l] obtain res nb2 where
    a: "ask_question w l ?nb1 = Inr (Some res, nb2)"
    and t: "asked (trace nb2) = asked (trace ?nb1) @ [l]"
    and c: "qa_chain nb2 = qa_chain ?nb1" and s: "store nb2 = store ?nb1"
    by blast
  have "asked (trace nb2) = asked (trace nb) @ [l]" using t by simp
  moreover have "ready nb2" using r1 c s by (rule ready_frame)
  moreover have "qa_loop w (l # rest) nb = qa_loop w rest nb2"
    using n a by (simp add: print_def Let_def)
  ultimately show ?thesis using a by blast
qed

lemma qa_loop_all:
  assumes "ready nb"
  shows "\<exists>nb'. qa_loop w ls nb
              = (if \<exists>x\<in>set ls. lower x \<in> set exit_words then Inr nb'
                 else Inl (EOFError, nb'))
           \<and> asked (trace nb')
              = asked (trace nb) @ takeWhile (\<lambda>x. lower x \<notin> set exit_words) ls"
  using assms
proof (induction ls arbitrary: nb)
  case Nil
  then show ?case by (simp add: print_def)
next
  case (Cons l ls)
  show ?case
  proof (cases "lower l \<in> set exit_words")
    case True
    then show ?thesis using qa_loop_exit [OF True, of w ls nb] by simp
  next
    case False
    from qa_loop_step [OF Cons.prems False, of w ls] obtain nb1 where
      t: "asked (trace nb1) = asked (trace nb) @ [l]" and r: "ready nb1"
      and q: "qa_loop w (l # ls) nb = qa_loop w ls nb1" by blast
    from Cons.IH [OF r] obtain nb' where
      "qa_loop w ls nb1
              = (if \<exists>x\<in>set ls. lower x \<in> set exit_words then Inr nb'
                 else Inl (EOFError, nb'))"
      "asked (trace nb')
              = asked (trace nb1) @ takeWhile (\<lambda>x. lower x \<notin> set exit_words) ls"
      by blast
    then show ?thesis using False q t by (intro exI [of _ nb']) simp
  qed
qed

text \<open>
  C4. In the Ready state the loop stops, normally, as soon as a line read equals
  \<open>exit\<close>, \<open>quit\<close> or \<open>q\<close> once lowercased; that line is not passed on. Every other
  line, the empty one included, is handed to \<open>ask_question\<close>, which answers it, and the
  loop goes on with the next line. So on an input the loop passes exactly the lines
  before the first exit word to the pipeline, and it ends with the farewell if there is
  an exit word and otherwise runs until the input ends.
\<close>

theorem interactive_loop_exit:
  assumes "ready nb"
  shows "(lower l \<in> set exit_words
            \<longleftrightarrow> lower l = ''exit'' \<or> lower l = ''quit'' \<or> lower l = ''q'')
       \<and> (lower l \<in> set exit_words \<longrightarrow>
            qa_loop w (l # rest) nb
              = Inr (nb\<lparr>stdin := rest,
                        stdout := stdout nb @ [Enter_your_question, Goodbye]\<rparr>))
       \<and> (lower l \<notin> set exit_words \<longrightarrow>
            (\<exists>r nb'. ask_question w l (nb\<lparr>stdin := rest,
                          stdout := stdout nb @ [Enter_your_question]\<rparr>) = Inr (Some r, nb')
                \<and> asked (trace nb') = asked (trace nb) @ [l]
                \<and> ready nb'
                \<and> qa_loop w (l # rest) nb = qa_loop w rest nb'))
       \<and> lower [] \<notin> set exit_words
       \<and> (\<exists>nb'. qa_loop w ls nb
                   = (if \<exists>x\<in>set ls. lower x \<in> set exit_words then Inr nb'
                      else Inl (EOFError, nb'))
              \<and> asked (trace nb')
                   = asked (trace nb) @ takeWhile (\<lambda>x. lower x \<notin> set exit_words) ls)"
proof (intro conjI impI)
  show "lower l \<in> set exit_words
            \<longleftrightarrow> lower l = ''exit'' \<or> lower l = ''quit'' \<or> lower l = ''q''"
    by (simp add: exit_words_def)
  show "lower [] \<notin> set exit_words" by (simp add: exit_words_def lower_def)
  show "\<exists>nb'. qa_loop w ls nb
                   = (if \<exists>x\<in>set ls. lower x \<in> set exit_words then Inr nb'
                      else Inl (EOFError, nb'))
              \<and> asked (trace nb')
                   = asked (trace nb) @ takeWhile (\<lambda>x. lower x \<notin> set exit_words) ls"
    by (rule qa_loop_all [OF assms])
next
  assume "lower l \<in> set exit_words"
  then show "qa_loop w (l # rest) nb
              = Inr (nb\<lparr>stdin := rest,
                        stdout := stdout nb @ [Enter_your_question, Goodbye]\<rparr>)"
    by (rule qa_loop_exit)
next
  assume "lower l \<notin> set exit_words"
  with assms show "\<exists>r nb'. ask_question w l (nb\<lparr>stdin := rest,
                          stdout := stdout nb @ [Enter_your_question]\<rparr>) = Inr (Some r, nb')
                \<and> asked (trace nb') = asked (trace nb) @ [l]
                \<and> ready nb'
                \<and> qa_loop w (l # rest) nb = qa_loop w rest nb'"
    by (rule qa_loop_step)
qed


lemma example_ready:
  "\<exists>nb. build example_world example_kernel = Inr nb \<and> ready nb
        \<and> trace nb = [Upsert ''pdf_documents'' 2]"
proof -
  from example_build obtain nb where
    "build example_world example_kernel = Inr nb"
    "qa_chain nb = Some \<lparr>retriever_collection = ''pdf_documents'', retriever_k = 3,
                            prompt_template = template\<rparr>"
    "store nb = [(''pdf_documents'', \<lparr>size_param = 2, distance = COSINE,
          points = [\<lparr>payload = \<lparr>page_content = ''./pdfs/a.PDF'', source = ''./pdfs/a.PDF'',
                                  page = 0\<rparr>, vector = [1, 0]\<rparr>,
                    \<lparr>payload = \<lparr>page_content = ''./pdfs/b.pdf'', source = ''./pdfs/b.pdf'',
                                  page = 0\<rparr>, vector = [1, 0]\<rparr>]\<rparr>)]"
    "trace nb = [Upsert ''pdf_documents'' 2]"
    by blast
  then show ?thesis by (intro exI [of _ nb]) (simp add: ready_def)
qed

theorem interactive_loop_exit_witness:
  "\<exists>nb. build example_world example_kernel = Inr nb \<and> ready nb
      \<and> (\<exists>nb'. qa_loop example_world [''What is X?'', [], ''QUIT''] nb = Inr nb'
             \<and> asked (trace nb') = [''What is X?'', []])"
proof -
  from example_ready obtain nb where
    b: "build example_world example_kernel = Inr nb" and r: "ready nb"
    and t: "trace nb = [Upsert ''pdf_documents'' 2]"
    by blast
  have e: "\<exists>x\<in>set [''What is X?'', [], ''QUIT'']. lower x \<in> set exit_words"
    by code_simp
  have k: "takeWhile (\<lambda>x. lower x \<notin> set exit_words) [''What is X?'', [], ''QUIT'']
             = [''What is X?'', []]"
    by code_simp
  from interactive_loop_exit [OF r, of "[]" example_world "[]"
      "[''What is X?'', [], ''QUIT'']"]
  obtain nb' where
    "qa_loop example_world [''What is X?'', [], ''QUIT''] nb
       = (if \<exists>x\<in>set [''What is X?'', [], ''QUIT'']. lower x \<in> set exit_words
          then Inr nb' else Inl (EOFError, nb'))"
    "asked (trace nb') = asked (trace nb)
       @ takeWhile (\<lambda>x. lower x \<notin> set exit_words) [''What is X?'', [], ''QUIT'']"
    by blast
  then have "qa_loop example_world [''What is X?'', [], ''QUIT''] nb = Inr nb'
             \<and> asked (trace nb') = [''What is X?'', []]"
    unfolding k using e by (simp add: t)
  then show ?thesis using b r by blast
qed

subsection \<open>Readiness\<close>

lemma build_ready_only:
  assumes b: "build w nb0 = Inr nb1" and q: "qa_chain nb0 = None"
    and v: "vectorstore nb0 = None" and d: "documents nb0 = None"
    and r: "qa_chain nb1 \<noteq> None"
  shows "\<exists>files. folder nb0 = Some files
           \<and> fst (load_loop w files ([], 0, [])) \<noteq> []
           \<and> documents nb1 = Some (fst (load_loop w files ([], 0, [])))
           \<and> collection_name nb1 = Some ''pdf_documents''
           \<and> store nb1 = (''pdf_documents'',
                \<lparr>size_param = model_dimension w, distance = COSINE,
                 points = embed_documents w (fst (load_loop w files ([], 0, [])))\<rparr>)
                # delete_collection ''pdf_documents'' (store nb0)
           \<and> vectorstore nb1 = Some ''pdf_documents''
           \<and> qa_chain nb1 = Some \<lparr>retriever_collection = ''pdf_documents'', retriever_k = 3,
                                    prompt_template = template\<rparr>
           \<and> trace nb1 = trace nb0
                @ [Upsert ''pdf_documents'' (length (fst (load_loop w files ([], 0, []))))]"
proof (cases "load_dotenv (dotenv w) (environ nb0) ''GOOGLE_API_KEY''")
  case None
  from build_absent [OF None] b show ?thesis by simp
next
  case (Some k)
  note k = this
  show ?thesis
  proof (cases "folder nb0")
    case None
    from build_missing_folder [OF k None d v] b r q show ?thesis by auto
  next
    case (Some files)
    note f = this
    show ?thesis
    proof (cases "fst (load_loop w files ([], 0, [])) = []")
      case True
      from build_no_chunks [OF k f True v] b r q show ?thesis by auto
    next
      case False
      from build_with_chunks [OF k f False] b
      have "nb1 = nb0\<lparr>environ := load_dotenv (dotenv w) (environ nb0),
             GOOGLE_API_KEY := Some k,
             embedding_dimension := Some (model_dimension w),
             collection_name := Some ''pdf_documents'',
             store := (''pdf_documents'',
                       \<lparr>size_param = model_dimension w, distance = COSINE,
                        points = embed_documents w (fst (load_loop w files ([], 0, [])))\<rparr>)
                       # delete_collection ''pdf_documents'' (store nb0),
             documents := Some (fst (load_loop w files ([], 0, []))),
             pdf_files := Some (fst (snd (load_loop w files ([], 0, [])))),
             vectorstore := Some ''pdf_documents'',
             prompt := Some template,
             qa_chain := Some \<lparr>retriever_collection = ''pdf_documents'', retriever_k = 3,
                                prompt_template = template\<rparr>,
             trace := trace nb0
               @ [Upsert ''pdf_documents'' (length (fst (load_loop w files ([], 0, []))))],
             stdout := stdout nb0 @ [Api_key_configured, Encoder_ready (model_dimension w)]
               @ (if ''pdf_documents'' \<in> set (get_collections (store nb0))
                  then [Deleted_existing_collection ''pdf_documents''] else [])
               @ [Created_collection ''pdf_documents'', Dashboard_available]
               @ snd (snd (load_loop w files ([], 0, [])))
               @ (if fst (snd (load_loop w files ([], 0, []))) = 0
                  then [No_pdf_files_found folder_path]
                  else [Loaded_and_split (length (fst (load_loop w files ([], 0, []))))
                          (fst (snd (load_loop w files ([], 0, []))))])
               @ [Creating_embeddings,
                  Uploaded (length (fst (load_loop w files ([], 0, [])))),
                  View_collection ''pdf_documents'',
                  Prompt_template_created, Chain_ready]\<rparr>"
        by simp
      then show ?thesis using f False by (intro exI [of _ files]) simp
    qed
  qed
qed

lemma build_failure_unready:
  assumes b: "build w nb0 = Inl (e, nb1)" and q: "qa_chain nb0 = None"
    and v: "vectorstore nb0 = None" and d: "documents nb0 = None"
  shows "e = TypeError \<and> qa_chain nb1 = None
         \<and> load_dotenv (dotenv w) (environ nb0) ''GOOGLE_API_KEY'' = None"
proof (cases "load_dotenv (dotenv w) (environ nb0) ''GOOGLE_API_KEY''")
  case None
  from build_absent [OF None] b q show ?thesis by (auto simp: None)
next
  case (Some k)
  note k = this
  show ?thesis
  proof (cases "folder nb0")
    case None
    from build_missing_folder [OF k None d v] b show ?thesis by simp
  next
    case (Some files)
    note f = this
    show ?thesis
    proof (cases "fst (load_loop w files ([], 0, [])) = []")
      case True
      from build_no_chunks [OF k f True v] b show ?thesis by simp
    next
      case False
      from build_with_chunks [OF k f False] b show ?thesis by simp
    qed
  qed
qed

text \<open>
  C9. While the chain is not built (Uninitialized), \<open>ask_question\<close> rejects every
  question: it prints that the chain was not created and returns \<open>None\<close>; the trace of
  calls to the encoder, the store and the language model is unchanged. In a run from a
  fresh kernel the chain gets built only if, in that run, the collection was created,
  the ingestion produced chunks and the indexing wrote them to the collection; the
  state is then Ready. A run that stops with an error leaves the chain unbuilt.
\<close>

theorem uninitialized_rejects_questions:
  "(qa_chain nb = None \<longrightarrow>
      ask_question w question nb
        = Inr (None, nb\<lparr>stdout := stdout nb @ [Chain_not_created]\<rparr>)
      \<and> trace (nb\<lparr>stdout := stdout nb @ [Chain_not_created]\<rparr>) = trace nb)
   \<and> (qa_chain nb0 = None \<and> vectorstore nb0 = None \<and> documents nb0 = None
        \<and> build w nb0 = Inr nb1 \<and> qa_chain nb1 \<noteq> None \<longrightarrow>
      (\<exists>files docs. folder nb0 = Some files
         \<and> docs = fst (load_loop w files ([], 0, [])) \<and> docs \<noteq> []
         \<and> documents nb1 = Some docs
         \<and> collection_name nb1 = Some ''pdf_documents''
         \<and> map_of (store nb1) ''pdf_documents''
              = Some \<lparr>size_param = model_dimension w, distance = COSINE,
                      points = embed_documents w docs\<rparr>
         \<and> vectorstore nb1 = Some ''pdf_documents''
         \<and> trace nb1 = trace nb0 @ [Upsert ''pdf_documents'' (length docs)]
         \<and> ready nb1))
   \<and> (qa_chain nb0 = None \<and> vectorstore nb0 = None \<and> documents nb0 = None
        \<and> build w nb0 = Inl (e, nb2) \<longrightarrow> qa_chain nb2 = None)
   \<and> (qa_chain nb = None \<and> stdin nb = try_example # rest
        \<and> lower try_example \<in> set [''y'', ''yes''] \<longrightarrow>
      start_session w nb
        = Inr (nb\<lparr>stdin := rest,
                  stdout := stdout nb @ [Chain_not_created, Try_example_anyway,
                                         Chain_not_created]\<rparr>))"
proof (intro conjI impI)
  assume "qa_chain nb = None"
  then show "ask_question w question nb
        = Inr (None, nb\<lparr>stdout := stdout nb @ [Chain_not_created]\<rparr>)"
    by (rule ask_question_uninitialized)
next
  assume a: "qa_chain nb = None \<and> stdin nb = try_example # rest
        \<and> lower try_example \<in> set [''y'', ''yes'']"
  let ?nb2 = "nb\<lparr>stdout := stdout nb @ [Chain_not_created, Try_example_anyway],
                 stdin := rest\<rparr>"
  have "qa_chain ?nb2 = None" using a by simp
  from ask_question_uninitialized [OF this, of w example_question] a
  show "start_session w nb
        = Inr (nb\<lparr>stdin := rest,
                  stdout := stdout nb @ [Chain_not_created, Try_example_anyway,
                                         Chain_not_created]\<rparr>)"
    by (simp add: start_session_def print_def Let_def)
next
  show "trace (nb\<lparr>stdout := stdout nb @ [Chain_not_created]\<rparr>) = trace nb" by simp
next
  assume a: "qa_chain nb0 = None \<and> vectorstore nb0 = None \<and> documents nb0 = None
        \<and> build w nb0 = Inr nb1 \<and> qa_chain nb1 \<noteq> None"
  then have "\<exists>files. folder nb0 = Some files
           \<and> fst (load_loop w files ([], 0, [])) \<noteq> []
           \<and> documents nb1 = Some (fst (load_loop w files ([], 0, [])))
           \<and> collection_name nb1 = Some ''pdf_documents''
           \<and> store nb1 = (''pdf_documents'',
                \<lparr>size_param = model_dimension w, distance = COSINE,
                 points = embed_documents w (fst (load_loop w files ([], 0, [])))\<rparr>)
                # delete_collection ''pdf_documents'' (store nb0)
           \<and> vectorstore nb1 = Some ''pdf_documents''
           \<and> qa_chain nb1 = Some \<lparr>retriever_collection = ''pdf_documents'', retriever_k = 3,
                                    prompt_template = template\<rparr>
           \<and> trace nb1 = trace nb0
                @ [Upsert ''pdf_documents'' (length (fst (load_loop w files ([], 0, []))))]"
    by (intro build_ready_only) simp_all
  then obtain files where f: "folder nb0 = Some files"
    and n: "fst (load_loop w files ([], 0, [])) \<noteq> []"
    and d: "documents nb1 = Some (fst (load_loop w files ([], 0, [])))"
    and c: "collection_name nb1 = Some ''pdf_documents''"
    and s: "store nb1 = (''pdf_documents'',
                \<lparr>size_param = model_dimension w, distance = COSINE,
                 points = embed_documents w (fst (load_loop w files ([], 0, [])))\<rparr>)
                # delete_collection ''pdf_documents'' (store nb0)"
    and v: "vectorstore nb1 = Some ''pdf_documents''"
    and q: "qa_chain nb1 = Some \<lparr>retriever_collection = ''pdf_documents'', retriever_k = 3,
                                    prompt_template = template\<rparr>"
    and t: "trace nb1 = trace nb0
                @ [Upsert ''pdf_documents'' (length (fst (load_loop w files ([], 0, []))))]"
    by blast
  have "ready nb1" using n by (simp add: ready_def q s embed_documents_def)
  moreover have "map_of (store nb1) ''pdf_documents''
              = Some \<lparr>size_param = model_dimension w, distance = COSINE,
                      points = embed_documents w (fst (load_loop w files ([], 0, [])))\<rparr>"
    by (simp add: s)
  ultimately show "\<exists>files docs. folder nb0 = Some files
         \<and> docs = fst (load_loop w files ([], 0, [])) \<and> docs \<noteq> []
         \<and> documents nb1 = Some docs
         \<and> collection_name nb1 = Some ''pdf_documents''
         \<and> map_of (store nb1) ''pdf_documents''
              = Some \<lparr>size_param = model_dimension w, distance = COSINE,
                      points = embed_documents w docs\<rparr>
         \<and> vectorstore nb1 = Some ''pdf_documents''
         \<and> trace nb1 = trace nb0 @ [Upsert ''pdf_documents'' (length docs)]
         \<and> ready nb1"
    using f n d c v t by blast
next
  assume "qa_chain nb0 = None \<and> vectorstore nb0 = None \<and> documents nb0 = None
        \<and> build w nb0 = Inl (e, nb2)"
  then show "qa_chain nb2 = None" using build_failure_unready [of w nb0 e nb2] by simp
qed


theorem uninitialized_rejects_questions_witness:
  "qa_chain example_kernel = None
   \<and> ask_question example_world ''hi'' example_kernel
       = Inr (None, example_kernel\<lparr>stdout := [Chain_not_created]\<rparr>)
   \<and> vectorstore example_kernel = None \<and> documents example_kernel = None
   \<and> (\<exists>nb1. build example_world example_kernel = Inr nb1 \<and> qa_chain nb1 \<noteq> None
          \<and> ready nb1 \<and> trace nb1 = [Upsert ''pdf_documents'' 2])"
proof -
  have a: "qa_chain example_kernel = None" "vectorstore example_kernel = None"
    "documents example_kernel = None" "stdout example_kernel = []" "trace example_kernel = []"
    by (simp_all add: example_kernel_def fresh_kernel_def)
  from example_build obtain nb1 where
    b: "build example_world example_kernel = Inr nb1"
    and q: "qa_chain nb1 = Some \<lparr>retriever_collection = ''pdf_documents'', retriever_k = 3,
                            prompt_template = template\<rparr>"
    by blast
  have l: "length (fst (load_loop example_world [''a.PDF'', ''notes.txt'', ''b.pdf'']
                          ([], 0, []))) = 2"
    unfolding example_load_loop by simp
  note u = uninitialized_rejects_questions
    [of example_kernel example_world "''hi''" example_kernel nb1]
  have "ask_question example_world ''hi'' example_kernel
       = Inr (None, example_kernel\<lparr>stdout := [Chain_not_created]\<rparr>)"
    using u a by simp
  moreover have "ready nb1 \<and> trace nb1 = [Upsert ''pdf_documents'' 2]"
    using u a b q l by (auto simp: example_folder)
  ultimately show ?thesis using a b q by auto
qed

subsection \<open>Retrieval\<close>

lemma query_length: "length (query w c v k) = min k (length (points c))"
  by (simp add: query_def min.commute)

lemma query_sorted:
  "sorted_wrt (\<lambda>p p'. similarity w v (vector p') \<le> similarity w v (vector p)) (query w c v k)"
proof -
  have "sorted (map (\<lambda>p. - similarity w v (vector p))
                 (sort_key (\<lambda>p. - similarity w v (vector p)) (points c)))"
    by (rule sorted_sort_key)
  then have "sorted_wrt (\<lambda>p p'. similarity w v (vector p') \<le> similarity w v (vector p))
               (sort_key (\<lambda>p. - similarity w v (vector p)) (points c))"
    by (simp add: sorted_map)
  then show ?thesis unfolding query_def by (rule sorted_wrt_take)
qed

lemma query_top:
  "\<exists>rest. mset (query w c v k @ rest) = mset (points c)
     \<and> (\<forall>p\<in>set (query w c v k). \<forall>r\<in>set rest.
           similarity w v (vector r) \<le> similarity w v (vector p))"
proof -
  let ?s = "sort_key (\<lambda>p. - similarity w v (vector p)) (points c)"
  have "sorted (map (\<lambda>p. - similarity w v (vector p)) ?s)" by (rule sorted_sort_key)
  then have "sorted_wrt (\<lambda>p p'. similarity w v (vector p') \<le> similarity w v (vector p))
               (take k ?s @ drop k ?s)"
    by (simp add: sorted_map)
  then have "\<forall>p\<in>set (take k ?s). \<forall>r\<in>set (drop k ?s).
           similarity w v (vector r) \<le> similarity w v (vector p)"
    unfolding sorted_wrt_append by blast
  moreover have "mset (take k ?s @ drop k ?s) = mset (points c)" by simp
  ultimately show ?thesis unfolding query_def by blast
qed

text \<open>
  C3. In the Ready state \<open>ask_question\<close> answers every question from the chunks the
  store returns for the question's embedding with \<open>k = 3\<close>: three chunks, or all of them
  if the collection holds fewer, in descending order of the similarity of their vectors
  to the embedding of the question, and no chunk left out is more similar than one
  returned.
\<close>

theorem answer_retrieves_top_three:
  assumes "ready nb"
  shows "\<exists>ch c answer nb'.
           qa_chain nb = Some ch
         \<and> map_of (store nb) (retriever_collection ch) = Some c
         \<and> ask_question w question nb
             = Inr (Some (answer, map payload (query w c (encode w question) 3)), nb')
         \<and> length (query w c (encode w question) 3) = min 3 (length (points c))
         \<and> sorted_wrt (\<lambda>p p'. similarity w (encode w question) (vector p')
                               \<le> similarity w (encode w question) (vector p))
              (query w c (encode w question) 3)
         \<and> (\<exists>rest. mset (query w c (encode w question) 3 @ rest) = mset (points c)
              \<and> (\<forall>p\<in>set (query w c (encode w question) 3). \<forall>r\<in>set rest.
                    similarity w (encode w question) (vector r)
                    \<le> similarity w (encode w question) (vector p)))"
  using ask_question_ready [OF assms, of w question]
    query_length [of w _ "encode w question" 3]
    query_sorted [of w "encode w question" _ 3]
    query_top [of w _ "encode w question" 3]
  by (elim exE conjE) blast

theorem answer_retrieves_top_three_witness:
  "ready ranking_notebook
   \<and> (\<exists>answer nb'. ask_question example_world ''Which?'' ranking_notebook
         = Inr (Some (answer, [\<lparr>page_content = ''four'', source = ''s'', page = 2\<rparr>,
                               \<lparr>page_content = ''three'', source = ''s'', page = 0\<rparr>,
                               \<lparr>page_content = ''two'', source = ''s'', page = 3\<rparr>]), nb'))"
proof -
  let ?c = "\<lparr>size_param = 2, distance = COSINE,
            points = [\<lparr>payload = \<lparr>page_content = ''three'', source = ''s'', page = 0\<rparr>,
                       vector = [3, 0]\<rparr>,
                      \<lparr>payload = \<lparr>page_content = ''one'', source = ''s'', page = 1\<rparr>,
                       vector = [1, 0]\<rparr>,
                      \<lparr>payload = \<lparr>page_content = ''four'', source = ''s'', page = 2\<rparr>,
                       vector = [4, 0]\<rparr>,
                      \<lparr>payload = \<lparr>page_content = ''two'', source = ''s'', page = 3\<rparr>,
                       vector = [2, 0]\<rparr>]\<rparr>"
  have r: "ready ranking_notebook"
    by (simp add: ready_def ranking_notebook_def paris_chain_def fresh_kernel_def)
  have m: "\<And>ch. qa_chain ranking_notebook = Some ch \<Longrightarrow>
             map_of (store ranking_notebook) (retriever_collection ch) = Some ?c"
    by (auto simp: ranking_notebook_def paris_chain_def fresh_kernel_def)
  have q: "map payload (query example_world ?c (encode example_world ''Which?'') 3)
             = [\<lparr>page_content = ''four'', source = ''s'', page = 2\<rparr>,
                \<lparr>page_content = ''three'', source = ''s'', page = 0\<rparr>,
                \<lparr>page_content = ''two'', source = ''s'', page = 3\<rparr>]"
    by (simp add: query_def example_world_def)
  from answer_retrieves_top_three [OF r, of example_world "''Which?''"]
  obtain ch c answer nb' where
    "qa_chain ranking_notebook = Some ch"
    "map_of (store ranking_notebook) (retriever_collection ch) = Some c"
    "ask_question example_world ''Which?'' ranking_notebook
       = Inr (Some (answer, map payload (query example_world c
                                           (encode example_world ''Which?'') 3)), nb')"
    by blast
  then have "ask_question example_world ''Which?'' ranking_notebook
         = Inr (Some (answer, [\<lparr>page_content = ''four'', source = ''s'', page = 2\<rparr>,
                               \<lparr>page_content = ''three'', source = ''s'', page = 0\<rparr>,
                               \<lparr>page_content = ''two'', source = ''s'', page = 3\<rparr>]), nb')"
    using m q by simp
  then show ?thesis using r by blast
qed

end
